theory Spec2Isabelle
  imports Complex_Main
begin

section \<open>Values: tensors, Python floats, errors\<close>

text \<open>
  A torch tensor is a nested list of reals, one list level per dimension; the outermost
  level is the batch. Floating-point rounding is not modelled: numbers are reals.
  The rank of every tensor is fixed by its type, so a sub-module that returns a tensor
  of another rank is excluded by the types.
\<close>

type_synonym tensor1 = "real list"
type_synonym tensor2 = "real list list"
type_synonym tensor3 = "real list list list"
type_synonym tensor4 = "real list list list list"

datatype error =
  AttributeError string | RuntimeError string | ValueError string | TypeError string

text \<open>
  The factors of the amplitude are either the Python float \<open>1.0\<close> (a sub-module is
  absent) or a tensor with one entry per sample.
\<close>

datatype pyvalue = PyFloat real | Tensor tensor1

text \<open>
  \<open>a * b\<close> for two factors. Float times float is a float, float times tensor scales
  every entry, tensor times tensor is elementwise with torch's broadcasting of a
  dimension of size one, and raises on any other mismatch of the sizes.
\<close>

fun py_mul :: "pyvalue \<Rightarrow> pyvalue \<Rightarrow> error + pyvalue" where
  "py_mul (PyFloat a) (PyFloat b) = Inr (PyFloat (a * b))"
| "py_mul (PyFloat a) (Tensor ys) = Inr (Tensor (map (\<lambda>y. a * y) ys))"
| "py_mul (Tensor xs) (PyFloat b) = Inr (Tensor (map (\<lambda>x. x * b) xs))"
| "py_mul (Tensor xs) (Tensor ys) =
     (if length xs = length ys then Inr (Tensor (map2 (\<lambda>x y. x * y) xs ys))
      else if length xs = 1 then Inr (Tensor (map (\<lambda>y. hd xs * y) ys))
      else if length ys = 1 then Inr (Tensor (map (\<lambda>x. x * hd ys) xs))
      else Inl (RuntimeError ''The size of tensor a must match the size of tensor b''))"

definition torch_exp :: "tensor1 \<Rightarrow> tensor1" where
  "torch_exp t = map exp t"

text \<open>\<open>torch.cat([a, b], dim=2)\<close> on tensors of rank three.\<close>

definition cat_dim2 :: "tensor3 \<Rightarrow> tensor3 \<Rightarrow> tensor3" where
  "cat_dim2 a b = map2 (\<lambda>ma mb. map2 (\<lambda>ra rb. ra @ rb) ma mb) a b"

text \<open>\<open>torch.cat(ts, dim=1)\<close> on a list of tensors of rank two.\<close>

fun cat_dim1 :: "tensor2 list \<Rightarrow> tensor2" where
  "cat_dim1 [] = []"
| "cat_dim1 [t] = t"
| "cat_dim1 (t # ts) = map2 (\<lambda>ra rb. ra @ rb) t (cat_dim1 ts)"

text \<open>
  \<open>t.squeeze(dim=-1)\<close> where the last dimension has size one, which is the shape
  the orbital head (one scalar per particle) and the antisymmetrization modules (one
  scalar per sample) produce.
\<close>

definition squeeze_last2 :: "tensor2 \<Rightarrow> tensor1" where
  "squeeze_last2 t = concat t"

definition squeeze_last3 :: "tensor3 \<Rightarrow> tensor2" where
  "squeeze_last3 t = map concat t"

definition sum_last :: "tensor2 \<Rightarrow> tensor1" where
  "sum_last t = map sum_list t"

text \<open>
  A Python slice \<open>start:stop\<close> (step one). A negative bound counts from the end and
  every bound is clamped to the length, as Python does.
\<close>

datatype pyslice = Slice "int option" "int option"

definition slice_bound :: "int \<Rightarrow> nat \<Rightarrow> nat" where
  "slice_bound i n = (if i < 0 then nat (max 0 (int n + i)) else min (nat i) n)"

fun getslice :: "pyslice \<Rightarrow> 'a list \<Rightarrow> 'a list" where
  "getslice (Slice start stop) xs =
     (let n = length xs;
          lo = (case start of None \<Rightarrow> 0 | Some i \<Rightarrow> slice_bound i n);
          hi = (case stop of None \<Rightarrow> n | Some j \<Rightarrow> slice_bound j n)
      in take (hi - lo) (drop lo xs))"

text \<open>\<open>t[:, idxs]\<close>\<close>

definition index_dim1 :: "pyslice \<Rightarrow> 'a list list \<Rightarrow> 'a list list" where
  "index_dim1 idxs t = map (getslice idxs) t"

text \<open>\<open>t[:, rows, cols]\<close>\<close>

definition index_dim12 :: "pyslice \<Rightarrow> pyslice \<Rightarrow> tensor3 \<Rightarrow> tensor3" where
  "index_dim12 rows cols t = map (\<lambda>m. map (getslice cols) (getslice rows m)) t"

text \<open>\<open>t[..., None]\<close> on a tensor of rank three.\<close>

definition unsqueeze_last :: "tensor3 \<Rightarrow> tensor4" where
  "unsqueeze_last t = map (map (map (\<lambda>x. [x]))) t"

section \<open>The diagnostic context\<close>

text \<open>
  Modelled from the spec: the class of \<open>NULL_DEBUG\<close> and of the active diagnostic
  context (\<open>dlqmc/utils\<close>, not among the sources). The spec describes a scoped-context
  object offering a "descend into named scope" operation (\<open>debug.cd(label)\<close>, used in a
  \<open>with\<close> statement) and a "record named value" operation (\<open>debug[name] = value\<close>),
  with a no-op implementation as the default. An entry is stored under the names of the
  scopes entered so far followed by its own name.
\<close>

record debug =
  tracing :: bool
  levels :: "string list"
  entries :: "string list \<rightharpoonup> pyvalue"

definition NULL_DEBUG :: debug where
  "NULL_DEBUG = \<lparr>tracing = False, levels = [], entries = Map.empty\<rparr>"

definition cd_enter :: "string \<Rightarrow> debug \<Rightarrow> debug" where
  "cd_enter label d = (if tracing d then d\<lparr>levels := levels d @ [label]\<rparr> else d)"

definition cd_exit :: "debug \<Rightarrow> debug" where
  "cd_exit d = (if tracing d then d\<lparr>levels := butlast (levels d)\<rparr> else d)"

definition setitem :: "string \<Rightarrow> pyvalue \<Rightarrow> debug \<Rightarrow> debug" where
  "setitem key v d =
     (if tracing d then d\<lparr>entries := (entries d)(levels d @ [key] \<mapsto> v)\<rparr> else d)"

section \<open>The sub-modules, as \<open>__init__\<close> builds them\<close>

text \<open>
  The classes and functions \<open>hannet.py\<close> imports from \<open>.base\<close>, \<open>.anti\<close>, \<open>.schnet\<close>
  and \<open>..utils\<close> are not among the sources. An object of such a class is represented by
  the constructor call that made it; what calling it computes, and how the call leaves
  the object, are parameters of the model (the record \<open>externals\<close> below).
\<close>

datatype activation = SSP

text \<open>
  A network module: \<open>get_log_dnn(in_dim, out_dim, activation, n_layers=..., last_bias=...)\<close>
  (\<open>last_bias\<close> is \<open>None\<close> when the call does not pass it), a module a user-supplied
  factory returns, and the wrappers \<open>Concat(net)\<close>, \<open>nn.Sigmoid()\<close> and
  \<open>nn.Sequential(...)\<close>.
\<close>

datatype 'u net =
    LogDNN int int activation int "bool option"
  | UserNet 'u
  | Concat "'u net"
  | Sigmoid
  | Sequential "'u net list"

datatype 'u LaughlinAnsatz = LaughlinAnsatz "'u net" "'u net"

datatype DistanceBasis = DistanceBasis int "(string \<times> real) list"

text \<open>
  Modelled from the spec: the attributes \<open>ion_potential\<close> of \<open>NuclearAsymptotic\<close> and
  \<open>cusp\<close> of \<open>ElectronicAsymptotic\<close> (\<open>dlqmc/nn/base.py\<close>, not among the sources), the
  learnable ionization potential and cusp coefficient the spec names, here the values
  the constructors receive.
\<close>

datatype NuclearAsymptotic =
  NuclearAsymptotic (na_charges: "real list") (ion_potential: real)
    (na_kwargs: "(string \<times> real) list")

datatype ElectronicAsymptotic = ElectronicAsymptotic (cusp: real)

text \<open>
  \<open>ElectronicSchnet(n_up, n_down, n_nuclei, n_interactions, basis_dim, kernel_dim,
  embedding_dim, interaction_factory=...)\<close>
\<close>

datatype 'i ElectronicSchnet =
  ElectronicSchnet int int int int int int int "'i option"

text \<open>
  What the absent code computes. For each class, \<open>_call\<close> is what calling a module
  returns and \<open>_after\<close> is the module as the call leaves it: a call may change the
  module object in place (its parameters, its buffers), and nothing in \<open>hannet.py\<close>
  rules that out. The two modules that receive the diagnostic context return it
  updated, next to their output.
\<close>

record ('u, 'i) externals =
  pairwise_distance :: "tensor3 \<Rightarrow> tensor3 \<Rightarrow> tensor3"
  triu_flat :: "tensor3 \<Rightarrow> tensor2"
  DistanceBasis_call :: "DistanceBasis \<Rightarrow> tensor3 \<Rightarrow> tensor4"
  DistanceBasis_after :: "DistanceBasis \<Rightarrow> tensor3 \<Rightarrow> DistanceBasis"
  NuclearAsymptotic_call :: "NuclearAsymptotic \<Rightarrow> tensor3 \<Rightarrow> tensor1"
  NuclearAsymptotic_after :: "NuclearAsymptotic \<Rightarrow> tensor3 \<Rightarrow> NuclearAsymptotic"
  ElectronicAsymptotic_call :: "ElectronicAsymptotic \<Rightarrow> tensor2 \<Rightarrow> tensor1"
  ElectronicAsymptotic_after :: "ElectronicAsymptotic \<Rightarrow> tensor2 \<Rightarrow> ElectronicAsymptotic"
  ElectronicSchnet_call :: "'i ElectronicSchnet \<Rightarrow> tensor4 \<Rightarrow> debug \<Rightarrow> tensor3 \<times> debug"
  ElectronicSchnet_after :: "'i ElectronicSchnet \<Rightarrow> tensor4 \<Rightarrow> debug \<Rightarrow> 'i ElectronicSchnet"
  net_call :: "'u net \<Rightarrow> tensor3 \<Rightarrow> tensor3"
  net_after :: "'u net \<Rightarrow> tensor3 \<Rightarrow> 'u net"
  LaughlinAnsatz_call ::
    "'u LaughlinAnsatz \<Rightarrow> tensor3 \<Rightarrow> tensor4 \<Rightarrow> debug \<Rightarrow> tensor2 \<times> debug"
  LaughlinAnsatz_after ::
    "'u LaughlinAnsatz \<Rightarrow> tensor3 \<Rightarrow> tensor4 \<Rightarrow> debug \<Rightarrow> 'u LaughlinAnsatz"

section \<open>\<open>HanNet.__init__\<close>\<close>

text \<open>
  Modelled from the spec: the geometry (\<open>geom\<close>) is an ordered sequence of nuclear
  positions with their charges; \<open>len(geom)\<close> is the number of nuclei.
\<close>

record geometry =
  geom_coords :: tensor2
  geom_charges :: "real list"

definition len_geom :: "geometry \<Rightarrow> int" where
  "len_geom g = int (length (geom_coords g))"

text \<open>
  An object passed for a factory argument: it can be called, and it has a truth value,
  which \<open>if not pair_factory\<close> tests. A function, a lambda and a class are truthy; an
  object whose class defines \<open>__bool__\<close> or \<open>__len__\<close> can be falsy.
\<close>

record 'f pycallable =
  truthy :: bool
  call :: 'f

text \<open>The arguments of \<open>__init__\<close>; \<open>None\<close> is an argument left at its default.\<close>

record ('u, 'i) init_args =
  geom :: geometry
  n_up :: int
  n_down :: int
  basis_dim :: int
  kernel_dim :: int
  embedding_dim :: int
  latent_dim :: int
  n_interactions :: int
  n_orbital_layers :: int
  ion_pot :: real
  cusp_same :: "real option"
  cusp_anti :: "real option"
  interaction_factory :: "'i option"
  orbital_factory :: "(int \<Rightarrow> 'u net) pycallable option"
  pair_factory :: "(int \<Rightarrow> int \<Rightarrow> 'u net) pycallable option"
  odd_factory :: "(int \<Rightarrow> 'u net) pycallable option"
  kwargs :: "(string \<times> real) list"

definition default_args :: "geometry \<Rightarrow> int \<Rightarrow> int \<Rightarrow> ('u, 'i) init_args" where
  "default_args g nu nd =
     \<lparr>geom = g, n_up = nu, n_down = nd, basis_dim = 32, kernel_dim = 64,
      embedding_dim = 128, latent_dim = 10, n_interactions = 3, n_orbital_layers = 3,
      ion_pot = 0.5, cusp_same = None, cusp_anti = None, interaction_factory = None,
      orbital_factory = None, pair_factory = None, odd_factory = None, kwargs = []\<rparr>"

text \<open>The fields \<open>__init__\<close> sets on \<open>self\<close>.\<close>

record ('u, 'i) HanNet =
  self_n_up :: int
  coords :: tensor2
  charges :: "real list"
  dist_basis :: DistanceBasis
  asymp_nuc :: NuclearAsymptotic
  asymp_same :: "ElectronicAsymptotic option"
  asymp_anti :: "ElectronicAsymptotic option"
  schnet :: "'i ElectronicSchnet"
  orbital :: "'u net"
  anti_up :: "'u LaughlinAnsatz option"
  anti_down :: "'u LaughlinAnsatz option"

text \<open>The three default factories, the nested functions of \<open>__init__\<close>.\<close>

definition default_orbital_factory :: "int \<Rightarrow> int \<Rightarrow> 'u net" where
  "default_orbital_factory n_layers emb = LogDNN emb 1 SSP n_layers None"

definition default_pair_factory :: "int \<Rightarrow> int \<Rightarrow> 'u net" where
  "default_pair_factory in_dim latent = LogDNN in_dim latent SSP 2 (Some False)"

definition default_odd_factory :: "int \<Rightarrow> 'u net" where
  "default_odd_factory latent = LogDNN latent 1 SSP 2 (Some False)"

text \<open>
  \<open>if not factory: factory = default\<close>: the default replaces the argument when the
  argument is \<open>None\<close> and also when it is an object that is falsy.
\<close>

definition or_default :: "'f pycallable option \<Rightarrow> 'f \<Rightarrow> 'f" where
  "or_default arg dflt =
     (case arg of None \<Rightarrow> dflt | Some f \<Rightarrow> if truthy f then call f else dflt)"

text \<open>
  Modelled from the spec: \<open>dctsel\<close> (\<open>dlqmc/utils\<close>, not among the sources) collects from
  the options bag only the keys relevant to one sub-component.
\<close>

definition dctsel :: "(string \<times> real) list \<Rightarrow> string list \<Rightarrow> (string \<times> real) list" where
  "dctsel kw keys = filter (\<lambda>kv. fst kv \<in> set keys) kw"

text \<open>\<open>ElectronicAsymptotic(cusp=cusp) if cusp is not None else None\<close>\<close>

definition make_asymp :: "real option \<Rightarrow> ElectronicAsymptotic option" where
  "make_asymp c = (case c of None \<Rightarrow> None | Some v \<Rightarrow> Some (ElectronicAsymptotic v))"

text \<open>\<open>LaughlinAnsatz(Concat(pair_factory(7, latent_dim)), nn.Sequential(odd_factory(latent_dim),
  nn.Sigmoid())) if n_elec > 1 else None\<close>\<close>

definition make_anti ::
  "(int \<Rightarrow> int \<Rightarrow> 'u net) \<Rightarrow> (int \<Rightarrow> 'u net) \<Rightarrow> int \<Rightarrow> int \<Rightarrow> 'u LaughlinAnsatz option" where
  "make_anti pair_f odd_f latent n_elec =
     (if n_elec > 1
      then Some (LaughlinAnsatz (Concat (pair_f 7 latent)) (Sequential [odd_f latent, Sigmoid]))
      else None)"

text \<open>
  The object \<open>__init__\<close> leaves when every call it makes returns (the calls, and what
  happens when one of them raises, follow below).
\<close>

definition HanNet_init :: "('u, 'i) init_args \<Rightarrow> ('u, 'i) HanNet" where
  "HanNet_init a =
     (let orbital_f = or_default (orbital_factory a)
                        (default_orbital_factory (n_orbital_layers a));
          pair_f = or_default (pair_factory a) default_pair_factory;
          odd_f = or_default (odd_factory a) default_odd_factory
      in \<lparr>self_n_up = n_up a,
          coords = geom_coords (geom a),
          charges = geom_charges (geom a),
          dist_basis = DistanceBasis (basis_dim a) (dctsel (kwargs a) [''cutoff'']),
          asymp_nuc = NuclearAsymptotic (geom_charges (geom a)) (ion_pot a)
                        (dctsel (kwargs a) [''alpha'']),
          asymp_same = make_asymp (cusp_same a),
          asymp_anti = make_asymp (cusp_anti a),
          schnet = ElectronicSchnet (n_up a) (n_down a) (len_geom (geom a))
                     (n_interactions a) (basis_dim a) (kernel_dim a) (embedding_dim a)
                     (interaction_factory a),
          orbital = orbital_f (embedding_dim a),
          anti_up = make_anti pair_f odd_f (latent_dim a) (n_up a),
          anti_down = make_anti pair_f odd_f (latent_dim a) (n_down a)\<rparr>)"

subsection \<open>The calls of \<open>__init__\<close>, and construction as a whole\<close>

text \<open>
  \<open>__init__\<close> has no \<open>raise\<close> of its own, but each constructor or factory it calls is
  absent code, or code the caller supplies, and may raise. A call is identified by the
  object it returns when it does not raise.
\<close>

datatype ('u, 'i) init_call =
    Super_init
  | Register_geom geometry
  | New_DistanceBasis DistanceBasis
  | New_NuclearAsymptotic NuclearAsymptotic
  | New_ElectronicAsymptotic ElectronicAsymptotic
  | New_ElectronicSchnet "'i ElectronicSchnet"
  | Factory_call "'u net"
  | New_net "'u net"
  | New_LaughlinAnsatz "'u LaughlinAnsatz"

text \<open>Lines 64 to 67: the constructor is called only for a cusp that is not \<open>None\<close>.\<close>

definition cusp_calls :: "real option \<Rightarrow> ('u, 'i) init_call list" where
  "cusp_calls c =
     (case c of None \<Rightarrow> [] | Some v \<Rightarrow> [New_ElectronicAsymptotic (ElectronicAsymptotic v)])"

text \<open>Lines 79 to 87, for one spin group: the calls in the order Python makes them.\<close>

definition anti_calls ::
  "(int \<Rightarrow> int \<Rightarrow> 'u net) \<Rightarrow> (int \<Rightarrow> 'u net) \<Rightarrow> int \<Rightarrow> int \<Rightarrow> ('u, 'i) init_call list" where
  "anti_calls pair_f odd_f latent n_elec =
     (if n_elec > 1
      then [Factory_call (pair_f 7 latent),
            New_net (Concat (pair_f 7 latent)),
            Factory_call (odd_f latent),
            New_net Sigmoid,
            New_net (Sequential [odd_f latent, Sigmoid]),
            New_LaughlinAnsatz
              (LaughlinAnsatz (Concat (pair_f 7 latent)) (Sequential [odd_f latent, Sigmoid]))]
      else [])"

definition init_calls :: "('u, 'i) init_args \<Rightarrow> ('u, 'i) init_call list" where
  "init_calls a =
     (let orbital_f = or_default (orbital_factory a)
                        (default_orbital_factory (n_orbital_layers a));
          pair_f = or_default (pair_factory a) default_pair_factory;
          odd_f = or_default (odd_factory a) default_odd_factory
      in [Super_init,
          Register_geom (geom a),
          New_DistanceBasis (DistanceBasis (basis_dim a) (dctsel (kwargs a) [''cutoff''])),
          New_NuclearAsymptotic (NuclearAsymptotic (geom_charges (geom a)) (ion_pot a)
                                   (dctsel (kwargs a) [''alpha'']))]
         @ cusp_calls (cusp_same a) @ cusp_calls (cusp_anti a)
         @ [New_ElectronicSchnet
              (ElectronicSchnet (n_up a) (n_down a) (len_geom (geom a))
                 (n_interactions a) (basis_dim a) (kernel_dim a) (embedding_dim a)
                 (interaction_factory a)),
            Factory_call (orbital_f (embedding_dim a))]
         @ anti_calls pair_f odd_f (latent_dim a) (n_up a)
         @ anti_calls pair_f odd_f (latent_dim a) (n_down a))"

text \<open>
  \<open>raises c\<close> is the error the call \<open>c\<close> raises, \<open>None\<close> when it returns. The first call
  that raises ends the construction.
\<close>

fun first_error ::
  "(('u, 'i) init_call \<Rightarrow> error option) \<Rightarrow> ('u, 'i) init_call list \<Rightarrow> error option" where
  "first_error raises [] = None"
| "first_error raises (c # cs) =
     (case raises c of Some e \<Rightarrow> Some e | None \<Rightarrow> first_error raises cs)"

text \<open>\<open>HanNet(geom, n_up, n_down, ...)\<close>: the error of the first call that raises, or the object.\<close>

definition HanNet_new ::
  "(('u, 'i) init_call \<Rightarrow> error option) \<Rightarrow> ('u, 'i) init_args \<Rightarrow> error + ('u, 'i) HanNet" where
  "HanNet_new raises a =
     (case first_error raises (init_calls a) of
        Some e \<Rightarrow> Inl e
      | None \<Rightarrow> Inr (HanNet_init a))"

section \<open>\<open>HanNet.tracked_parameters\<close>\<close>



section \<open>\<open>HanNet.forward\<close>\<close>

text \<open>
  Modelled from the spec: \<open>spin_slices\<close> (a property of \<open>BaseWFNet\<close>, not among the
  sources). The particles are partitioned into two contiguous groups, the first
  \<open>n_up\<close> being the up group.
\<close>

definition spin_slices :: "('u, 'i) HanNet \<Rightarrow> pyslice list" where
  "spin_slices self = [Slice None (Some (self_n_up self)), Slice (Some (self_n_up self)) None]"

text \<open>
  The module objects \<open>self.anti_up\<close> and \<open>self.anti_down\<close> name, as the loop leaves them:
  the call in iteration \<open>i\<close> is made on the module of position \<open>i\<close>.
\<close>

definition store_anti ::
  "nat \<Rightarrow> 'm \<Rightarrow> 'm option \<times> 'm option \<Rightarrow> 'm option \<times> 'm option" where
  "store_anti i md mods = (if i = 0 then (Some md, snd mods) else (fst mods, Some md))"

text \<open>
  The loop over \<open>enumerate(zip(('anti_up', 'anti_down'), (self.anti_up, self.anti_down),
  self.spin_slices))\<close>: an absent module is skipped, a present one is called inside the
  scope of its label and its squeezed output replaces \<open>antis[i]\<close>.
\<close>

fun anti_loop ::
  "('u, 'i) externals \<Rightarrow> tensor3 \<Rightarrow> tensor3 \<Rightarrow>
   (nat \<times> string \<times> 'u LaughlinAnsatz option \<times> pyslice) list \<Rightarrow>
   pyvalue list \<Rightarrow> 'u LaughlinAnsatz option \<times> 'u LaughlinAnsatz option \<Rightarrow> debug \<Rightarrow>
   pyvalue list \<times> ('u LaughlinAnsatz option \<times> 'u LaughlinAnsatz option) \<times> debug" where
  "anti_loop X rs dists_elec [] antis mods dbg = (antis, mods, dbg)"
| "anti_loop X rs dists_elec ((i, label, net, idxs) # rest) antis mods dbg =
     (case net of
        None \<Rightarrow> anti_loop X rs dists_elec rest antis mods dbg
      | Some md \<Rightarrow>
          (let x = index_dim1 idxs rs;
               y = unsqueeze_last (index_dim12 idxs idxs dists_elec);
               r = LaughlinAnsatz_call X md x y (cd_enter label dbg)
           in anti_loop X rs dists_elec rest
                (antis[i := Tensor (squeeze_last2 (fst r))])
                (store_anti i (LaughlinAnsatz_after X md x y (cd_enter label dbg)) mods)
                (cd_exit (snd r))))"

definition zip3 :: "'a list \<Rightarrow> 'b list \<Rightarrow> 'c list \<Rightarrow> ('a \<times> 'b \<times> 'c) list" where
  "zip3 xs ys zs = zip xs (zip ys zs)"

definition antis_of ::
  "('u, 'i) externals \<Rightarrow> ('u, 'i) HanNet \<Rightarrow> tensor3 \<Rightarrow> tensor3 \<Rightarrow> debug \<Rightarrow>
   pyvalue list \<times> ('u LaughlinAnsatz option \<times> 'u LaughlinAnsatz option) \<times> debug" where
  "antis_of X self rs dists_elec dbg =
     anti_loop X rs dists_elec
       (enumerate 0 (zip3 [''anti_up'', ''anti_down''] [anti_up self, anti_down self]
                       (spin_slices self)))
       [PyFloat 1.0, PyFloat 1.0] (anti_up self, anti_down self) dbg"

text \<open>The argument of the same-spin module, lines 125 to 128.\<close>

definition same_spin_distances ::
  "('u, 'i) externals \<Rightarrow> ('u, 'i) HanNet \<Rightarrow> tensor3 \<Rightarrow> tensor2" where
  "same_spin_distances X self dists_elec =
     cat_dim1 (map (\<lambda>idxs. triu_flat X (index_dim12 idxs idxs dists_elec)) (spin_slices self))"

text \<open>The same-spin asymptotic factor, lines 123 to 132.\<close>

definition asymp_same_value ::
  "('u, 'i) externals \<Rightarrow> ('u, 'i) HanNet \<Rightarrow> tensor3 \<Rightarrow> pyvalue" where
  "asymp_same_value X self dists_elec =
     (case asymp_same self of
        Some md \<Rightarrow>
          Tensor (ElectronicAsymptotic_call X md (same_spin_distances X self dists_elec))
      | None \<Rightarrow> PyFloat 1.0)"

text \<open>The same-spin module as that call leaves it.\<close>

definition asymp_same_after ::
  "('u, 'i) externals \<Rightarrow> ('u, 'i) HanNet \<Rightarrow> tensor3 \<Rightarrow> ElectronicAsymptotic option" where
  "asymp_same_after X self dists_elec =
     (case asymp_same self of
        Some md \<Rightarrow>
          Some (ElectronicAsymptotic_after X md (same_spin_distances X self dists_elec))
      | None \<Rightarrow> None)"

text \<open>
  The opposite-spin asymptotic factor, lines 133 to 139. When the module is present the
  argument of its call is \<open>dists_elec[:, : self.n_up, self.n_up :].flattten(start_dim=1)\<close>:
  a tensor has no attribute \<open>flattten\<close>, so the attribute lookup raises before the
  module is called.
\<close>

definition asymp_anti_value ::
  "('u, 'i) externals \<Rightarrow> ('u, 'i) HanNet \<Rightarrow> tensor3 \<Rightarrow> error + pyvalue" where
  "asymp_anti_value X self dists_elec =
     (case asymp_anti self of
        Some md \<Rightarrow> Inl (AttributeError ''flattten'')
      | None \<Rightarrow> Inr (PyFloat 1.0))"

text \<open>\<open>asymp = asymp_nuc * asymp_same * asymp_anti\<close> and the returned product.\<close>

definition py_mul3 :: "pyvalue \<Rightarrow> pyvalue \<Rightarrow> pyvalue \<Rightarrow> error + pyvalue" where
  "py_mul3 a b c = (case py_mul a b of Inl e \<Rightarrow> Inl e | Inr ab \<Rightarrow> py_mul ab c)"

definition amplitude_product ::
  "pyvalue \<Rightarrow> pyvalue \<Rightarrow> tensor1 \<Rightarrow> pyvalue \<Rightarrow> error + pyvalue" where
  "amplitude_product a_up a_down jastrow asymp_v =
     (case py_mul3 a_up a_down (Tensor (torch_exp jastrow)) of
        Inl e \<Rightarrow> Inl e
      | Inr p \<Rightarrow> py_mul p asymp_v)"

text \<open>\<open>anti_up, anti_down = antis\<close>\<close>

fun unpack2 :: "'a list \<Rightarrow> error + 'a \<times> 'a" where
  "unpack2 [a, b] = Inr (a, b)"
| "unpack2 [] = Inl (ValueError ''not enough values to unpack'')"
| "unpack2 [a] = Inl (ValueError ''not enough values to unpack'')"
| "unpack2 (a # b # c # r) = Inl (ValueError ''too many values to unpack'')"

text \<open>
  \<open>forward(self, rs, debug)\<close> returns what the call returns or raises, the model as
  the call leaves it, and the diagnostic context as the call leaves it.

  The body assigns to no attribute of \<open>self\<close>. Each sub-module is called once and a
  call changes no object but the module it is made on, so each read of \<open>self\<close> sees
  the field as it was when \<open>forward\<close> was called; the \<open>self\<close> that is returned holds
  every module as its call left it.
\<close>

definition forward ::
  "('u, 'i) externals \<Rightarrow> ('u, 'i) HanNet \<Rightarrow> tensor3 \<Rightarrow> debug \<Rightarrow>
   (error + pyvalue) \<times> ('u, 'i) HanNet \<times> debug" where
  "forward X self rs dbg =
     (let dists_elec = pairwise_distance X rs rs;
          dists_nuc = pairwise_distance X rs [coords self];
          dists = cat_dim2 dists_elec dists_nuc;
          dists_basis = DistanceBasis_call X (dist_basis self) dists;
          s = ElectronicSchnet_call X (schnet self) dists_basis (cd_enter ''schnet'' dbg);
          xs = fst s;
          dbg1 = cd_exit (snd s);
          jastrow = sum_last (squeeze_last3 (net_call X (orbital self) xs));
          dbg2 = setitem ''jastrow'' (Tensor jastrow) dbg1;
          l = antis_of X self rs dists_elec dbg2;
          dbg3 = snd (snd l);
          self1 = self
            \<lparr>dist_basis := DistanceBasis_after X (dist_basis self) dists,
             schnet := ElectronicSchnet_after X (schnet self) dists_basis
                         (cd_enter ''schnet'' dbg),
             orbital := net_after X (orbital self) xs,
             anti_up := fst (fst (snd l)),
             anti_down := snd (fst (snd l))\<rparr>
      in case unpack2 (fst l) of
           Inl e \<Rightarrow> (Inl e, self1, dbg3)
         | Inr (a_up, a_down) \<Rightarrow>
             (let asymp_nuc_v = Tensor (NuclearAsymptotic_call X (asymp_nuc self) dists_nuc);
                  dbg4 = setitem ''asymp_nuc'' asymp_nuc_v dbg3;
                  asymp_same_v = asymp_same_value X self dists_elec;
                  dbg5 = setitem ''asymp_same'' asymp_same_v dbg4;
                  self2 = self1
                    \<lparr>asymp_nuc := NuclearAsymptotic_after X (asymp_nuc self) dists_nuc,
                     asymp_same := asymp_same_after X self dists_elec\<rparr>
              in case asymp_anti_value X self dists_elec of
                   Inl e \<Rightarrow> (Inl e, self2, dbg5)
                 | Inr asymp_anti_v \<Rightarrow>
                     (let dbg6 = setitem ''asymp_anti'' asymp_anti_v dbg5
                      in case py_mul3 asymp_nuc_v asymp_same_v asymp_anti_v of
                           Inl e \<Rightarrow> (Inl e, self2, dbg6)
                         | Inr asymp_v \<Rightarrow>
                             (amplitude_product a_up a_down jastrow asymp_v, self2, dbg6))))"

text \<open>
  A call of \<open>model.forward(rs, debug)\<close> on the objects of the program: the model and the
  diagnostic context, both as the call leaves them.
\<close>

record ('u, 'i) objects =
  model :: "('u, 'i) HanNet"
  context_obj :: debug

definition forward_call ::
  "('u, 'i) externals \<Rightarrow> ('u, 'i) objects \<Rightarrow> tensor3 \<Rightarrow> (error + pyvalue) \<times> ('u, 'i) objects" where
  "forward_call X st rs =
     (let r = forward X (model st) rs (context_obj st)
      in (fst r, \<lparr>model = fst (snd r), context_obj = snd (snd r)\<rparr>))"

text \<open>
  Exchanging the particles \<open>i\<close> and \<open>j\<close> in every sample of a batch; a sample that
  has no particle \<open>i\<close> or \<open>j\<close> is left as it is.
\<close>

definition swap_particles :: "nat \<Rightarrow> nat \<Rightarrow> tensor3 \<Rightarrow> tensor3" where
  "swap_particles i j rs =
     map (\<lambda>c. if i < length c \<and> j < length c then c[i := c ! j, j := c ! i] else c) rs"

section \<open>The contracts of the absent sub-modules\<close>

text \<open>
  Modelled from the spec: the sub-modules that receive the diagnostic context
  (\<open>ElectronicSchnet\<close>, \<open>LaughlinAnsatz\<close>; not among the sources) record intermediates
  in it "without altering the numeric result": their output is the one they give with
  \<open>NULL_DEBUG\<close>.
\<close>

definition debug_neutral :: "('u, 'i) externals \<Rightarrow> bool" where
  "debug_neutral X =
     ((\<forall>s x d. fst (ElectronicSchnet_call X s x d) = fst (ElectronicSchnet_call X s x NULL_DEBUG)) \<and>
      (\<forall>n x y d. fst (LaughlinAnsatz_call X n x y d) = fst (LaughlinAnsatz_call X n x y NULL_DEBUG)))"

text \<open>
  Modelled from the spec: a sub-module that descends into named scopes of the context
  leaves them again before it returns, so the context is back in the scope it was
  passed in.
\<close>

definition keeps_scope :: "('u, 'i) externals \<Rightarrow> bool" where
  "keeps_scope X =
     ((\<forall>s x d. tracing (snd (ElectronicSchnet_call X s x d)) = tracing d \<and>
               levels (snd (ElectronicSchnet_call X s x d)) = levels d) \<and>
      (\<forall>n x y d. tracing (snd (LaughlinAnsatz_call X n x y d)) = tracing d \<and>
                 levels (snd (LaughlinAnsatz_call X n x y d)) = levels d))"

text \<open>
  Modelled from the spec: the sub-modules are pure functions of their inputs and
  parameters, with "no internal mutable state retained between calls": a call leaves
  the module as it found it.
\<close>

definition stateless :: "('u, 'i) externals \<Rightarrow> bool" where
  "stateless X =
     ((\<forall>m x. DistanceBasis_after X m x = m) \<and>
      (\<forall>m x. NuclearAsymptotic_after X m x = m) \<and>
      (\<forall>m x. ElectronicAsymptotic_after X m x = m) \<and>
      (\<forall>m x d. ElectronicSchnet_after X m x d = m) \<and>
      (\<forall>m x. net_after X m x = m) \<and>
      (\<forall>m x y d. LaughlinAnsatz_after X m x y d = m))"

section \<open>The factors of the amplitude, with diagnostics disabled\<close>

definition schnet_out :: "('u, 'i) externals \<Rightarrow> 'i ElectronicSchnet \<Rightarrow> tensor4 \<Rightarrow> tensor3" where
  "schnet_out X s x = fst (ElectronicSchnet_call X s x NULL_DEBUG)"

definition antis_out ::
  "('u, 'i) externals \<Rightarrow> ('u, 'i) HanNet \<Rightarrow> tensor3 \<Rightarrow> tensor3 \<Rightarrow> pyvalue list" where
  "antis_out X self rs dists_elec = fst (antis_of X self rs dists_elec NULL_DEBUG)"

definition anti_up_of :: "('u, 'i) externals \<Rightarrow> ('u, 'i) HanNet \<Rightarrow> tensor3 \<Rightarrow> pyvalue" where
  "anti_up_of X self rs = antis_out X self rs (pairwise_distance X rs rs) ! 0"

definition anti_down_of :: "('u, 'i) externals \<Rightarrow> ('u, 'i) HanNet \<Rightarrow> tensor3 \<Rightarrow> pyvalue" where
  "anti_down_of X self rs = antis_out X self rs (pairwise_distance X rs rs) ! 1"

text \<open>
  The Jastrow term: the orbital network applied to the embeddings, squeezed, and summed
  over the particles of each sample.
\<close>

definition jastrow_of :: "('u, 'i) externals \<Rightarrow> ('u, 'i) HanNet \<Rightarrow> tensor3 \<Rightarrow> tensor1" where
  "jastrow_of X self rs =
     sum_last (squeeze_last3 (net_call X (orbital self)
       (schnet_out X (schnet self)
          (DistanceBasis_call X (dist_basis self)
             (cat_dim2 (pairwise_distance X rs rs) (pairwise_distance X rs [coords self]))))))"

definition asymp_nuc_of :: "('u, 'i) externals \<Rightarrow> ('u, 'i) HanNet \<Rightarrow> tensor3 \<Rightarrow> pyvalue" where
  "asymp_nuc_of X self rs =
     Tensor (NuclearAsymptotic_call X (asymp_nuc self) (pairwise_distance X rs [coords self]))"

definition asymp_same_of :: "('u, 'i) externals \<Rightarrow> ('u, 'i) HanNet \<Rightarrow> tensor3 \<Rightarrow> pyvalue" where
  "asymp_same_of X self rs = asymp_same_value X self (pairwise_distance X rs rs)"

definition asymp_anti_of ::
  "('u, 'i) externals \<Rightarrow> ('u, 'i) HanNet \<Rightarrow> tensor3 \<Rightarrow> error + pyvalue" where
  "asymp_anti_of X self rs = asymp_anti_value X self (pairwise_distance X rs rs)"

text \<open>
  Lines 140 and 141 as a function of the six factors; the opposite-spin factor is the
  outcome of lines 133 to 139, which may be an error.
\<close>

definition product_outcome ::
  "pyvalue \<Rightarrow> pyvalue \<Rightarrow> tensor1 \<Rightarrow> pyvalue \<Rightarrow> pyvalue \<Rightarrow> error + pyvalue \<Rightarrow> error + pyvalue" where
  "product_outcome a_up a_down jastrow a_nuc a_same a_anti =
     (case a_anti of
        Inl e \<Rightarrow> Inl e
      | Inr aa \<Rightarrow>
          (case py_mul3 a_nuc a_same aa of
             Inl e \<Rightarrow> Inl e
           | Inr asymp_v \<Rightarrow> amplitude_product a_up a_down jastrow asymp_v))"

section \<open>Reading a factor sample by sample\<close>

text \<open>
  The value of a factor at the sample \<open>b\<close> of the batch (a float is shared by all
  samples), and the shape of a factor for a batch of \<open>B\<close> samples.
\<close>

definition sample_of :: "pyvalue \<Rightarrow> nat \<Rightarrow> real" where
  "sample_of v b = (case v of PyFloat a \<Rightarrow> a | Tensor xs \<Rightarrow> xs ! b)"

definition per_sample :: "nat \<Rightarrow> pyvalue \<Rightarrow> bool" where
  "per_sample B v = (case v of PyFloat a \<Rightarrow> True | Tensor xs \<Rightarrow> length xs = B)"

text \<open>Every factor that is a tensor holds one entry for each of the \<open>B\<close> samples.\<close>

definition one_per_sample ::
  "('u, 'i) externals \<Rightarrow> ('u, 'i) HanNet \<Rightarrow> tensor3 \<Rightarrow> nat \<Rightarrow> bool" where
  "one_per_sample X self rs B =
     (length (jastrow_of X self rs) = B \<and>
      per_sample B (anti_up_of X self rs) \<and>
      per_sample B (anti_down_of X self rs) \<and>
      per_sample B (asymp_nuc_of X self rs) \<and>
      per_sample B (asymp_same_of X self rs))"

section \<open>An instance of the absent code, and concrete inputs\<close>

text \<open>
  Modelled from the spec: \<open>pairwise_distance\<close> (\<open>dlqmc/nn/base.py\<close>, not among the
  sources) returns the matrix of Euclidean distances between two sets of coordinates; a
  second argument with a batch of one is shared by every sample.
\<close>

definition euclid :: "real list \<Rightarrow> real list \<Rightarrow> real" where
  "euclid p q = sqrt (sum_list (map2 (\<lambda>x y. (x - y) ^ 2) p q))"

definition distance_matrix :: "tensor2 \<Rightarrow> tensor2 \<Rightarrow> tensor2" where
  "distance_matrix ps qs = map (\<lambda>p. map (euclid p) qs) ps"

definition pairwise_distance_spec :: "tensor3 \<Rightarrow> tensor3 \<Rightarrow> tensor3" where
  "pairwise_distance_spec as bs =
     (case bs of
        [b] \<Rightarrow> map (\<lambda>a. distance_matrix a b) as
      | _ \<Rightarrow> map2 distance_matrix as bs)"

text \<open>
  Modelled from the spec: \<open>triu_flat\<close> (\<open>dlqmc/utils\<close>, not among the sources) flattens
  the upper triangle of each sample's distance matrix, the distances of the pairs
  \<open>i < j\<close>.
\<close>

fun upper_triangle :: "tensor2 \<Rightarrow> nat \<Rightarrow> real list" where
  "upper_triangle [] k = []"
| "upper_triangle (row # rows) k = drop (Suc k) row @ upper_triangle rows (Suc k)"

definition triu_flat_spec :: "tensor3 \<Rightarrow> tensor2" where
  "triu_flat_spec t = map (\<lambda>m. upper_triangle m 0) t"

text \<open>
  One instance of the sub-modules, small enough to evaluate. Both modules that receive
  the diagnostic context record an intermediate in it, and every call leaves its module
  as it found it.
\<close>

definition example_schnet :: "'i ElectronicSchnet \<Rightarrow> tensor4 \<Rightarrow> debug \<Rightarrow> tensor3 \<times> debug" where
  "example_schnet s x d =
     (map (map (\<lambda>row. [sum_list (concat row)])) x,
      setitem ''x'' (Tensor (map (\<lambda>sample. sum_list (concat (concat sample))) x)) d)"

definition example_anti ::
  "'u LaughlinAnsatz \<Rightarrow> tensor3 \<Rightarrow> tensor4 \<Rightarrow> debug \<Rightarrow> tensor2 \<times> debug" where
  "example_anti n x y d =
     (map (\<lambda>sample. [prod_list (upper_triangle
                 (map (\<lambda>p. map (\<lambda>q. sum_list q - sum_list p) sample) sample) 0)]) x,
      setitem ''zs'' (Tensor (map (\<lambda>sample. sum_list (concat (concat sample))) y)) d)"

definition example_externals :: "(unit, unit) externals" where
  "example_externals =
     \<lparr>pairwise_distance = pairwise_distance_spec,
      triu_flat = triu_flat_spec,
      DistanceBasis_call = (\<lambda>b t. map (map (map (\<lambda>r. [exp (- (r * r))]))) t),
      DistanceBasis_after = (\<lambda>b t. b),
      NuclearAsymptotic_call =
        (\<lambda>na t. map (\<lambda>sample. exp (- (ion_potential na * sum_list (concat sample)))) t),
      NuclearAsymptotic_after = (\<lambda>na t. na),
      ElectronicAsymptotic_call =
        (\<lambda>ea t. map (\<lambda>ds. exp (cusp ea * sum_list (map (\<lambda>r. r / (1 + r)) ds))) t),
      ElectronicAsymptotic_after = (\<lambda>ea t. ea),
      ElectronicSchnet_call = example_schnet,
      ElectronicSchnet_after = (\<lambda>s x d. s),
      net_call = (\<lambda>n t. map (map (\<lambda>row. [sum_list row])) t),
      net_after = (\<lambda>n t. n),
      LaughlinAnsatz_call = example_anti,
      LaughlinAnsatz_after = (\<lambda>n x y d. n)\<rparr>"

text \<open>
  The same instance, but with a nuclear asymptotic module whose call halves its own
  ionization potential: a module that is not stateless.
\<close>

definition drifting_externals :: "(unit, unit) externals" where
  "drifting_externals =
     example_externals
       \<lparr>NuclearAsymptotic_after :=
          (\<lambda>na t. NuclearAsymptotic (na_charges na) (ion_potential na / 2) (na_kwargs na))\<rparr>"

text \<open>
  The geometry of the spec's scenarios: two nuclei at \<open>(0,0,0)\<close> and \<open>(1,0,0)\<close> with
  charges \<open>(1,1)\<close>.
\<close>

definition example_geom :: geometry where
  "example_geom = \<lparr>geom_coords = [[0, 0, 0], [1, 0, 0]], geom_charges = [1, 1]\<rparr>"

text \<open>An active diagnostic context with nothing recorded yet.\<close>

definition fresh_debug :: debug where
  "fresh_debug = \<lparr>tracing = True, levels = [], entries = Map.empty\<rparr>"

definition example_rs :: tensor3 where
  "example_rs = [[[0, 0, 0], [1, 0, 0], [0, 1, 0]]]"

text \<open>
  An \<open>ElectronicAsymptotic\<close> constructor that raises on every call, every other call of
  \<open>__init__\<close> returning.
\<close>

definition no_cusp_module :: "(unit, unit) init_call \<Rightarrow> error option" where
  "no_cusp_module c =
     (case c of New_ElectronicAsymptotic m \<Rightarrow> Some (TypeError ''cusp'') | _ \<Rightarrow> None)"

text \<open>A factory object that is falsy, and returns a network of its own when called.\<close>

definition falsy_factory :: "(int \<Rightarrow> int \<Rightarrow> unit net) pycallable" where
  "falsy_factory = \<lparr>truthy = False, call = (\<lambda>i l. Sequential [LogDNN i l SSP 4 None])\<rparr>"

definition truthy_factory :: "(int \<Rightarrow> int \<Rightarrow> unit net) pycallable" where
  "truthy_factory = \<lparr>truthy = True, call = (\<lambda>i l. Sequential [LogDNN i l SSP 4 None])\<rparr>"

section \<open>Lemmas on the loop and on the diagnostic context\<close>

lemma anti_loop_length:
  "length (fst (anti_loop X rs de l antis mods dbg)) = length antis"
  by (induction X rs de l antis mods dbg rule: anti_loop.induct)
    (auto split: option.splits simp: Let_def)

lemma unpack2_length2: "length xs = 2 \<Longrightarrow> unpack2 xs = Inr (xs ! 0, xs ! 1)"
  by (cases xs rule: unpack2.cases) auto

lemma antis_of_unpack:
  "unpack2 (fst (antis_of X self rs de dbg)) =
     Inr (fst (antis_of X self rs de dbg) ! 0, fst (antis_of X self rs de dbg) ! 1)"
  by (rule unpack2_length2) (simp add: antis_of_def anti_loop_length)

lemma forward_raises:
  assumes "asymp_anti self = Some md"
  shows "fst (forward X self rs dbg) = Inl (AttributeError ''flattten'')"
  using assms by (simp add: forward_def Let_def antis_of_unpack asymp_anti_value_def)

lemma init_cusp_anti:
  "asymp_anti (HanNet_init (a\<lparr>cusp_anti := Some c\<rparr>)) = Some (ElectronicAsymptotic c)"
  by (simp add: HanNet_init_def make_asymp_def Let_def)

lemma schnet_neutral:
  "debug_neutral X \<Longrightarrow> fst (ElectronicSchnet_call X s x d) = schnet_out X s x"
  unfolding debug_neutral_def schnet_out_def by blast

lemma laughlin_neutral:
  "debug_neutral X \<Longrightarrow>
   fst (LaughlinAnsatz_call X n x y d) = fst (LaughlinAnsatz_call X n x y d')"
  unfolding debug_neutral_def by metis

lemma anti_loop_neutral:
  assumes "debug_neutral X"
  shows "fst (anti_loop X rs de l antis mods d) = fst (anti_loop X rs de l antis mods' d')"
proof (induction l arbitrary: antis mods mods' d d')
  case Nil
  show ?case by simp
next
  case (Cons t rest)
  obtain i label net idxs where t: "t = (i, label, net, idxs)"
    by (cases t) auto
  show ?case
  proof (cases net)
    case None
    with t Cons.IH show ?thesis by simp
  next
    case (Some md)
    have "fst (LaughlinAnsatz_call X md (index_dim1 idxs rs)
                 (unsqueeze_last (index_dim12 idxs idxs de)) (cd_enter label d)) =
          fst (LaughlinAnsatz_call X md (index_dim1 idxs rs)
                 (unsqueeze_last (index_dim12 idxs idxs de)) (cd_enter label d'))"
      by (rule laughlin_neutral[OF assms])
    with t Some Cons.IH show ?thesis by (simp add: Let_def)
  qed
qed

lemma antis_of_neutral:
  "debug_neutral X \<Longrightarrow> fst (antis_of X self rs de d) = antis_out X self rs de"
  unfolding antis_of_def antis_out_def by (rule anti_loop_neutral)

lemma forward_neutral:
  assumes "debug_neutral X"
  shows "fst (forward X self rs d) = fst (forward X self rs d')"
  using assms
  by (simp add: forward_def Let_def antis_of_unpack schnet_neutral antis_of_neutral
      split: sum.splits prod.splits)

lemma antis_out_unpack:
  "unpack2 (antis_out X self rs de) = Inr (antis_out X self rs de ! 0, antis_out X self rs de ! 1)"
  unfolding antis_out_def by (rule antis_of_unpack)

text \<open>What \<open>forward\<close> returns or raises, in terms of the six factors.\<close>

lemma forward_outcome:
  assumes "debug_neutral X"
  shows "fst (forward X self rs dbg) =
     product_outcome (anti_up_of X self rs) (anti_down_of X self rs) (jastrow_of X self rs)
       (asymp_nuc_of X self rs) (asymp_same_of X self rs) (asymp_anti_of X self rs)"
  using assms
  by (simp add: forward_def Let_def antis_out_unpack schnet_neutral antis_of_neutral
      product_outcome_def anti_up_of_def anti_down_of_def jastrow_of_def asymp_nuc_of_def
      asymp_same_of_def asymp_anti_of_def split: sum.splits)

section \<open>What \<open>forward\<close> records\<close>

lemma setitem_scope: "tracing (setitem k v d) = tracing d" "levels (setitem k v d) = levels d"
  by (simp_all add: setitem_def)

lemma cd_scope:
  "tracing (cd_enter l d) = tracing d" "tracing (cd_exit d) = tracing d"
  "levels (cd_enter l d) = (if tracing d then levels d @ [l] else levels d)"
  "levels (cd_exit d) = (if tracing d then butlast (levels d) else levels d)"
  by (simp_all add: cd_enter_def cd_exit_def)

lemma schnet_scope:
  assumes "keeps_scope X"
  shows "tracing (snd (ElectronicSchnet_call X s x d)) = tracing d"
    and "levels (snd (ElectronicSchnet_call X s x d)) = levels d"
  using assms by (simp_all add: keeps_scope_def)

lemma laughlin_scope:
  assumes "keeps_scope X"
  shows "tracing (snd (LaughlinAnsatz_call X n x y d)) = tracing d"
    and "levels (snd (LaughlinAnsatz_call X n x y d)) = levels d"
  using assms by (simp_all add: keeps_scope_def)

lemma anti_loop_scope:
  assumes "keeps_scope X"
  shows "tracing (snd (snd (anti_loop X rs de l antis mods d))) = tracing d \<and>
         levels (snd (snd (anti_loop X rs de l antis mods d))) = levels d"
proof (induction l arbitrary: antis mods d)
  case Nil
  show ?case by simp
next
  case (Cons t rest)
  obtain i label net idxs where t: "t = (i, label, net, idxs)"
    by (cases t) auto
  show ?case
    using Cons.IH t
    by (cases net) (simp_all add: Let_def laughlin_scope[OF assms] cd_scope)
qed

lemma antis_of_scope:
  assumes "keeps_scope X"
  shows "tracing (snd (snd (antis_of X self rs de d))) = tracing d"
    and "levels (snd (snd (antis_of X self rs de d))) = levels d"
  using anti_loop_scope[OF assms] by (simp_all add: antis_of_def)

lemma entries_setitem_here:
  "tracing d \<Longrightarrow> levels d = ls \<Longrightarrow> entries (setitem k v d) (ls @ [k]) = Some v"
  by (simp add: setitem_def)

lemma entries_setitem_other:
  "k \<noteq> k' \<Longrightarrow> levels d = ls \<Longrightarrow> entries (setitem k v d) (ls @ [k']) = entries d (ls @ [k'])"
  by (simp add: setitem_def)

lemma forward_records_asymp_anti:
  assumes "keeps_scope X" and "asymp_anti self = None" and "tracing dbg"
  shows "entries (snd (snd (forward X self rs dbg))) (levels dbg @ [''asymp_anti'']) =
           Some (PyFloat 1)"
  using assms(2,3)
  by (auto simp: forward_def Let_def antis_of_unpack asymp_anti_value_def
      setitem_scope cd_scope schnet_scope[OF assms(1)] antis_of_scope[OF assms(1)]
      split: sum.splits intro!: entries_setitem_here)

lemma forward_records_asymp_same:
  assumes "keeps_scope X" and "asymp_same self = None" and "tracing dbg"
  shows "entries (snd (snd (forward X self rs dbg))) (levels dbg @ [''asymp_same'']) =
           Some (PyFloat 1)"
proof -
  have here: "entries (setitem ''asymp_same'' (PyFloat 1) d) (levels dbg @ [''asymp_same'']) =
      Some (PyFloat 1)" if "tracing d" "levels d = levels dbg" for d
    using that by (simp add: setitem_def)
  have other: "entries (setitem ''asymp_anti'' v d) (levels dbg @ [''asymp_same'']) =
      entries d (levels dbg @ [''asymp_same''])" if "levels d = levels dbg" for d v
    using that by (simp add: setitem_def)
  show ?thesis
    using assms(2,3)
    by (auto simp: forward_def Let_def antis_of_unpack asymp_anti_value_def asymp_same_value_def
        setitem_scope cd_scope schnet_scope[OF assms(1)] antis_of_scope[OF assms(1)]
        here other split: sum.splits option.splits)
qed

section \<open>What \<open>forward\<close> does to the model\<close>

lemma antis_of_mods:
  assumes "stateless X"
  shows "fst (snd (antis_of X self rs de dbg)) = (anti_up self, anti_down self)"
proof -
  have l: "LaughlinAnsatz_after X m x y d = m" for m x y d
    using assms by (simp add: stateless_def)
  show ?thesis
    by (cases "anti_up self"; cases "anti_down self")
      (simp_all add: antis_of_def zip3_def enumerate_eq_zip spin_slices_def Let_def
        store_anti_def l)
qed

lemma asymp_same_after_stateless:
  "stateless X \<Longrightarrow> asymp_same_after X self de = asymp_same self"
  by (cases "asymp_same self") (simp_all add: asymp_same_after_def stateless_def)

lemma forward_self:
  assumes "stateless X"
  shows "fst (snd (forward X self rs dbg)) = self"
proof -
  have s: "DistanceBasis_after X m x = m" "NuclearAsymptotic_after X n y = n"
    "ElectronicSchnet_after X e z d = e" "net_after X o' w = o'" for m x n y e z d o' w
    using assms by (simp_all add: stateless_def)
  show ?thesis
    by (simp add: forward_def Let_def antis_of_unpack antis_of_mods[OF assms]
        asymp_same_after_stateless[OF assms] s split: sum.splits)
qed

text \<open>A call of a module that changes it shows in the model \<open>forward\<close> returns.\<close>

lemma forward_stores_asymp_nuc:
  "asymp_nuc (fst (snd (forward X self rs dbg))) =
     NuclearAsymptotic_after X (asymp_nuc self) (pairwise_distance X rs [coords self])"
  by (simp add: forward_def Let_def antis_of_unpack split: sum.splits)

lemma drifting_forward_changes_model:
  "ion_potential (asymp_nuc (fst (snd (forward drifting_externals
      (HanNet_init (default_args example_geom 1 1)) example_rs NULL_DEBUG)))) = 1 / 4"
  by (simp add: forward_stores_asymp_nuc drifting_externals_def HanNet_init_def
      default_args_def Let_def)

section \<open>Construction\<close>

lemma first_error_None: "first_error raises cs = None \<longleftrightarrow> (\<forall>c \<in> set cs. raises c = None)"
  by (induction cs) (auto split: option.splits)

lemma HanNet_new_Inr:
  "HanNet_new raises a = Inr m \<longleftrightarrow>
     (\<forall>c \<in> set (init_calls a). raises c = None) \<and> m = HanNet_init a"
  using first_error_None[of raises "init_calls a"]
  by (cases "first_error raises (init_calls a)") (auto simp: HanNet_new_def)

lemma init_calls_without_cusp_same:
  "set (init_calls (a\<lparr>cusp_same := None\<rparr>)) \<subseteq> set (init_calls (a\<lparr>cusp_same := c\<rparr>))"
  by (auto simp: init_calls_def Let_def cusp_calls_def)

lemma init_calls_without_cusp_anti:
  "set (init_calls (a\<lparr>cusp_anti := None\<rparr>)) \<subseteq> set (init_calls (a\<lparr>cusp_anti := c\<rparr>))"
  by (auto simp: init_calls_def Let_def cusp_calls_def)

lemma init_calls_no_cusp:
  assumes "cusp_same a = None" "cusp_anti a = None"
  shows "New_ElectronicAsymptotic m \<notin> set (init_calls a)"
  using assms by (auto simp: init_calls_def Let_def cusp_calls_def anti_calls_def)

section \<open>The product, sample by sample\<close>

lemma py_mul_per_sample:
  assumes "per_sample B u" "per_sample B v"
  obtains w where "py_mul u v = Inr w" "per_sample B w"
    "\<And>b. b < B \<Longrightarrow> sample_of w b = sample_of u b * sample_of v b"
  using assms
  by (cases u; cases v) (auto simp: per_sample_def sample_of_def)

lemma py_mul3_per_sample:
  assumes "per_sample B u" "per_sample B v" "per_sample B w"
  obtains r where "py_mul3 u v w = Inr r" "per_sample B r"
    "\<And>b. b < B \<Longrightarrow> sample_of r b = sample_of u b * sample_of v b * sample_of w b"
proof -
  obtain uv where uv: "py_mul u v = Inr uv" "per_sample B uv"
    "\<And>b. b < B \<Longrightarrow> sample_of uv b = sample_of u b * sample_of v b"
    using py_mul_per_sample[OF assms(1,2)] by blast
  obtain r where r: "py_mul uv w = Inr r" "per_sample B r"
    "\<And>b. b < B \<Longrightarrow> sample_of r b = sample_of uv b * sample_of w b"
    using py_mul_per_sample[OF uv(2) assms(3)] by blast
  show ?thesis
    using that[of r] uv r by (simp add: py_mul3_def)
qed

lemma product_outcome_per_sample:
  assumes "length jastrow = B" "per_sample B a_up" "per_sample B a_down"
    "per_sample B a_nuc" "per_sample B a_same" "per_sample B a_anti"
  shows "\<exists>w. product_outcome a_up a_down jastrow a_nuc a_same (Inr a_anti) = Inr w \<and>
    per_sample B w \<and>
    (\<forall>b<B. sample_of w b =
       sample_of a_up b * sample_of a_down b * exp (jastrow ! b) *
       sample_of a_nuc b * sample_of a_same b * sample_of a_anti b)"
proof -
  have e: "per_sample B (Tensor (torch_exp jastrow))"
    using assms(1) by (simp add: per_sample_def torch_exp_def)
  obtain asymp_v where av: "py_mul3 a_nuc a_same a_anti = Inr asymp_v" "per_sample B asymp_v"
    "\<And>b. b < B \<Longrightarrow> sample_of asymp_v b =
       sample_of a_nuc b * sample_of a_same b * sample_of a_anti b"
    using py_mul3_per_sample[OF assms(4,5,6)] by blast
  obtain p where p: "py_mul3 a_up a_down (Tensor (torch_exp jastrow)) = Inr p" "per_sample B p"
    "\<And>b. b < B \<Longrightarrow> sample_of p b =
       sample_of a_up b * sample_of a_down b * sample_of (Tensor (torch_exp jastrow)) b"
    using py_mul3_per_sample[OF assms(2,3) e] by blast
  obtain w where w: "py_mul p asymp_v = Inr w" "per_sample B w"
    "\<And>b. b < B \<Longrightarrow> sample_of w b = sample_of p b * sample_of asymp_v b"
    using py_mul_per_sample[OF p(2) av(2)] by blast
  have f: "product_outcome a_up a_down jastrow a_nuc a_same (Inr a_anti) = Inr w"
    using av(1) p(1) w(1) by (simp add: product_outcome_def amplitude_product_def)
  have v: "sample_of w b =
       sample_of a_up b * sample_of a_down b * exp (jastrow ! b) *
       sample_of a_nuc b * sample_of a_same b * sample_of a_anti b"
    if "b < B" for b
    using that w(3)[OF that] p(3)[OF that] av(3)[OF that] assms(1)
    by (simp add: sample_of_def torch_exp_def)
  from f w(2) v show ?thesis by blast
qed

lemma forward_example:
  "fst (forward example_externals (HanNet_init (default_args example_geom 1 1))
          [[[0, 0, 0], [1, 0, 0]]] NULL_DEBUG) =
     Inr (Tensor [exp (4 * exp (- 1) + 4) * exp (- 1)])"
  by (simp add: forward_def Let_def antis_of_def zip3_def enumerate_eq_zip spin_slices_def
      HanNet_init_def default_args_def make_anti_def make_asymp_def default_orbital_factory_def
      or_default_def
      example_externals_def example_schnet_def example_geom_def pairwise_distance_spec_def
      distance_matrix_def euclid_def cat_dim2_def sum_last_def squeeze_last3_def
      asymp_anti_value_def asymp_same_value_def py_mul3_def amplitude_product_def torch_exp_def
      NULL_DEBUG_def setitem_def cd_enter_def cd_exit_def)

lemma example_externals_neutral: "debug_neutral example_externals"
  by (simp add: debug_neutral_def example_externals_def example_schnet_def example_anti_def)

lemma example_externals_keeps_scope: "keeps_scope example_externals"
  by (simp add: keeps_scope_def example_externals_def example_schnet_def example_anti_def
      setitem_def)

lemma example_externals_stateless: "stateless example_externals"
  by (simp add: stateless_def example_externals_def)

section \<open>The constructed model and the instance\<close>

lemma init_small_up:
  "n_up a < 2 \<Longrightarrow> anti_up (HanNet_init a) = None \<and> anti_up_of X (HanNet_init a) rs = PyFloat 1"
  by (cases "n_down a > 1")
    (simp_all add: HanNet_init_def make_anti_def anti_up_of_def antis_out_def antis_of_def
      zip3_def spin_slices_def enumerate_eq_zip Let_def)

lemma init_small_down:
  "n_down a < 2 \<Longrightarrow>
   anti_down (HanNet_init a) = None \<and> anti_down_of X (HanNet_init a) rs = PyFloat 1"
  by (cases "n_up a > 1")
    (simp_all add: HanNet_init_def make_anti_def anti_down_of_def antis_out_def antis_of_def
      zip3_def spin_slices_def enumerate_eq_zip Let_def)

lemma init_no_cusp_anti:
  "cusp_anti a = None \<Longrightarrow>
   asymp_anti (HanNet_init a) = None \<and> asymp_anti_of X (HanNet_init a) rs = Inr (PyFloat 1)"
  by (simp add: HanNet_init_def make_asymp_def asymp_anti_of_def asymp_anti_value_def Let_def)

lemma init_no_cusp_same:
  "cusp_same a = None \<Longrightarrow>
   asymp_same (HanNet_init a) = None \<and> asymp_same_of X (HanNet_init a) rs = PyFloat 1"
  by (simp add: HanNet_init_def make_asymp_def asymp_same_of_def asymp_same_value_def Let_def)

lemma one_per_sampleD:
  assumes "one_per_sample X self rs B"
  shows "length (jastrow_of X self rs) = B" "per_sample B (anti_up_of X self rs)"
    "per_sample B (anti_down_of X self rs)" "per_sample B (asymp_nuc_of X self rs)"
    "per_sample B (asymp_same_of X self rs)"
  using assms by (simp_all add: one_per_sample_def)

lemma per_sample_float: "per_sample B (PyFloat x)"
  by (simp add: per_sample_def)

lemma sample_of_float: "sample_of (PyFloat x) b = x"
  by (simp add: sample_of_def)

lemma example_one_per_sample:
  "one_per_sample example_externals (HanNet_init (default_args example_geom 1 1))
     [[[0, 0, 0], [1, 0, 0]]] 1"
  by (simp add: one_per_sample_def jastrow_of_def anti_up_of_def anti_down_of_def
      asymp_nuc_of_def asymp_same_of_def asymp_same_value_def antis_out_def antis_of_def
      zip3_def enumerate_eq_zip spin_slices_def per_sample_def sum_last_def squeeze_last3_def
      HanNet_init_def default_args_def make_anti_def make_asymp_def Let_def
      example_externals_def schnet_out_def example_schnet_def pairwise_distance_spec_def
      cat_dim2_def)

lemma example_records_asymp_anti:
  "entries (snd (snd (forward example_externals
      (HanNet_init (default_args example_geom 2 1)) example_rs fresh_debug))) [''asymp_anti''] =
      Some (PyFloat 1)"
proof -
  have n: "asymp_anti (HanNet_init (default_args example_geom 2 1 :: (unit, unit) init_args)) =
      None"
    using init_no_cusp_anti[of "default_args example_geom 2 1 :: (unit, unit) init_args"]
    by (simp add: default_args_def)
  show ?thesis
    using forward_records_asymp_anti[OF example_externals_keeps_scope n, of fresh_debug
        example_rs]
    by (simp add: fresh_debug_def)
qed

lemma drifting_model_changes:
  "model (snd (forward_call drifting_externals
      \<lparr>model = HanNet_init (default_args example_geom 2 1), context_obj = fresh_debug\<rparr>
      example_rs)) \<noteq> HanNet_init (default_args example_geom 2 1)"
proof
  let ?after = "model (snd (forward_call drifting_externals
      \<lparr>model = HanNet_init (default_args example_geom 2 1), context_obj = fresh_debug\<rparr>
      example_rs))"
  assume same: "?after = HanNet_init (default_args example_geom 2 1)"
  have after: "ion_potential (asymp_nuc ?after) = 1 / 4"
    by (simp add: forward_call_def Let_def forward_stores_asymp_nuc drifting_externals_def
        HanNet_init_def default_args_def)
  have before: "ion_potential (asymp_nuc (HanNet_init
      (default_args example_geom 2 1 :: (unit, unit) init_args))) = 1 / 2"
    by (simp add: HanNet_init_def default_args_def Let_def)
  from after[unfolded same] before show False
    by linarith
qed

text \<open>
  On a model without the opposite-spin module, and with every factor holding one entry
  per sample, \<open>forward\<close> returns for each sample the product of the two
  antisymmetrization factors, the exponential of the Jastrow sum, the nuclear and the
  same-spin asymptotic factors, and \<open>1\<close> for the opposite-spin factor.
\<close>

lemma forward_product:
  assumes "debug_neutral X" and "asymp_anti self = None" and "one_per_sample X self rs B"
  shows "\<exists>w. fst (forward X self rs dbg) = Inr w \<and> per_sample B w \<and>
    (\<forall>b<B. sample_of w b =
       sample_of (anti_up_of X self rs) b * sample_of (anti_down_of X self rs) b *
       exp (jastrow_of X self rs ! b) * sample_of (asymp_nuc_of X self rs) b *
       sample_of (asymp_same_of X self rs) b * 1)"
proof -
  note s = one_per_sampleD[OF assms(3)]
  have aa: "asymp_anti_of X self rs = Inr (PyFloat 1)"
    using assms(2) by (simp add: asymp_anti_of_def asymp_anti_value_def)
  show ?thesis
    using product_outcome_per_sample[OF s(1) s(2) s(3) s(4) s(5) per_sample_float[of B 1]]
      forward_outcome[OF assms(1), of self rs dbg] aa
    by (simp add: sample_of_float)
qed

section \<open>The claims\<close>

text \<open>
  Claim C1 (antisymmetry under the exchange of two particles of one spin group) asks
  for an amplitude on the original and on the swapped configuration. For the model
  built with \<open>n_up = 2\<close>, \<open>n_down = 1\<close> and \<open>cusp_anti = 1.0\<close>, \<open>forward\<close> raises
  \<open>AttributeError\<close> on both, whatever the sub-modules compute, so there is no amplitude
  to compare.
\<close>

theorem swapped_and_original_both_raise:
  "swap_particles 0 1 example_rs = [[[1, 0, 0], [0, 0, 0], [0, 1, 0]]] \<and>
   fst (forward X (HanNet_init ((default_args example_geom 2 1)\<lparr>cusp_anti := Some 1\<rparr>))
          example_rs NULL_DEBUG) = Inl (AttributeError ''flattten'') \<and>
   fst (forward X (HanNet_init ((default_args example_geom 2 1)\<lparr>cusp_anti := Some 1\<rparr>))
          (swap_particles 0 1 example_rs) NULL_DEBUG) = Inl (AttributeError ''flattten'')"
  by (simp add: forward_raises[OF init_cusp_anti] swap_particles_def example_rs_def)

text \<open>
  Claim C2 (\<open>forward\<close> returns the product of the six factors) at the model of the
  spec's first scenario with \<open>cusp_anti = 1.0\<close>: the call raises \<open>AttributeError\<close>
  while it computes the opposite-spin factor, and returns no product.
\<close>

theorem product_not_returned:
  "fst (forward X (HanNet_init ((default_args example_geom 1 1)\<lparr>cusp_anti := Some 1\<rparr>))
          [[[0, 0, 0], [1, 0, 0]]] NULL_DEBUG) = Inl (AttributeError ''flattten'')"
  by (rule forward_raises[OF init_cusp_anti])

text \<open>
  Claim C3 (the amplitude is zero when two particles of one spin group coincide) at
  the model of the spec's second scenario (\<open>n_up = 2\<close>, \<open>n_down = 0\<close>) with
  \<open>cusp_anti = 1.0\<close> and both up particles at \<open>(0.5, 0, 0)\<close>: the call raises
  \<open>AttributeError\<close> instead of returning zero.
\<close>

theorem coincident_particles_raise:
  "fst (forward X (HanNet_init ((default_args example_geom 2 0)\<lparr>cusp_anti := Some 1\<rparr>))
          [[[1/2, 0, 0], [1/2, 0, 0]]] NULL_DEBUG) = Inl (AttributeError ''flattten'')"
  by (rule forward_raises[OF init_cusp_anti])

text \<open>
  Claim C4: for a model constructed with fewer than two particles in a spin group, the
  antisymmetrization module of that group is absent (\<open>None\<close>), and what \<open>forward\<close>
  returns or raises is the product of lines 140 and 141 with the float \<open>1.0\<close> as the
  factor of that group. Where \<open>cusp_anti\<close> is not configured and every factor holds one
  entry per sample, \<open>forward\<close> returns an amplitude, and for each sample it is the
  product of the factors with \<open>1\<close> in the place of that group.
\<close>

theorem small_spin_group_has_no_anti_module:
  assumes "debug_neutral X" and "self = HanNet_init a"
  shows
   "(n_up a < 2 \<longrightarrow>
       anti_up self = None \<and>
       fst (forward X self rs dbg) =
         product_outcome (PyFloat 1) (anti_down_of X self rs) (jastrow_of X self rs)
           (asymp_nuc_of X self rs) (asymp_same_of X self rs) (asymp_anti_of X self rs)) \<and>
    (n_down a < 2 \<longrightarrow>
       anti_down self = None \<and>
       fst (forward X self rs dbg) =
         product_outcome (anti_up_of X self rs) (PyFloat 1) (jastrow_of X self rs)
           (asymp_nuc_of X self rs) (asymp_same_of X self rs) (asymp_anti_of X self rs)) \<and>
    (n_up a < 2 \<and> cusp_anti a = None \<and> one_per_sample X self rs B \<longrightarrow>
       (\<exists>w. fst (forward X self rs dbg) = Inr w \<and> per_sample B w \<and>
          (\<forall>b<B. sample_of w b =
             1 * sample_of (anti_down_of X self rs) b * exp (jastrow_of X self rs ! b) *
             sample_of (asymp_nuc_of X self rs) b * sample_of (asymp_same_of X self rs) b * 1))) \<and>
    (n_down a < 2 \<and> cusp_anti a = None \<and> one_per_sample X self rs B \<longrightarrow>
       (\<exists>w. fst (forward X self rs dbg) = Inr w \<and> per_sample B w \<and>
          (\<forall>b<B. sample_of w b =
             sample_of (anti_up_of X self rs) b * 1 * exp (jastrow_of X self rs ! b) *
             sample_of (asymp_nuc_of X self rs) b * sample_of (asymp_same_of X self rs) b * 1)))"
proof -
  note out = forward_outcome[OF assms(1), of self rs dbg]
  have up: "anti_up self = None \<and> fst (forward X self rs dbg) =
         product_outcome (PyFloat 1) (anti_down_of X self rs) (jastrow_of X self rs)
           (asymp_nuc_of X self rs) (asymp_same_of X self rs) (asymp_anti_of X self rs)"
    if "n_up a < 2"
    using init_small_up[OF that, of X rs] out assms(2) by simp
  have down: "anti_down self = None \<and> fst (forward X self rs dbg) =
         product_outcome (anti_up_of X self rs) (PyFloat 1) (jastrow_of X self rs)
           (asymp_nuc_of X self rs) (asymp_same_of X self rs) (asymp_anti_of X self rs)"
    if "n_down a < 2"
    using init_small_down[OF that, of X rs] out assms(2) by simp
  have up_s: "\<exists>w. fst (forward X self rs dbg) = Inr w \<and> per_sample B w \<and>
          (\<forall>b<B. sample_of w b =
             1 * sample_of (anti_down_of X self rs) b * exp (jastrow_of X self rs ! b) *
             sample_of (asymp_nuc_of X self rs) b * sample_of (asymp_same_of X self rs) b * 1)"
    if h: "n_up a < 2" "cusp_anti a = None" "one_per_sample X self rs B"
  proof -
    note s = one_per_sampleD[OF h(3)]
    have aa: "asymp_anti_of X self rs = Inr (PyFloat 1)"
      using init_no_cusp_anti[OF h(2), of X rs] assms(2) by simp
    show ?thesis
      using product_outcome_per_sample[OF s(1) per_sample_float[of B 1] s(3) s(4) s(5)
          per_sample_float[of B 1]] up[OF h(1)] aa
      by (simp add: sample_of_float)
  qed
  have down_s: "\<exists>w. fst (forward X self rs dbg) = Inr w \<and> per_sample B w \<and>
          (\<forall>b<B. sample_of w b =
             sample_of (anti_up_of X self rs) b * 1 * exp (jastrow_of X self rs ! b) *
             sample_of (asymp_nuc_of X self rs) b * sample_of (asymp_same_of X self rs) b * 1)"
    if h: "n_down a < 2" "cusp_anti a = None" "one_per_sample X self rs B"
  proof -
    note s = one_per_sampleD[OF h(3)]
    have aa: "asymp_anti_of X self rs = Inr (PyFloat 1)"
      using init_no_cusp_anti[OF h(2), of X rs] assms(2) by simp
    show ?thesis
      using product_outcome_per_sample[OF s(1) s(2) per_sample_float[of B 1] s(4) s(5)
          per_sample_float[of B 1]] down[OF h(1)] aa
      by (simp add: sample_of_float)
  qed
  from up down up_s down_s show ?thesis by blast
qed

text \<open>
  The spec's first scenario, \<open>n_up = 1\<close> and \<open>n_down = 1\<close>, on one configuration:
  both modules are absent and both factors are \<open>1\<close>.
\<close>

theorem small_spin_group_witness:
  "n_up (default_args example_geom 1 1 :: (unit, unit) init_args) < 2 \<and>
   n_down (default_args example_geom 1 1 :: (unit, unit) init_args) < 2 \<and>
   cusp_anti (default_args example_geom 1 1 :: (unit, unit) init_args) = None \<and>
   one_per_sample example_externals (HanNet_init (default_args example_geom 1 1))
     [[[0, 0, 0], [1, 0, 0]]] 1 \<and>
   anti_up (HanNet_init (default_args example_geom 1 1 :: (unit, unit) init_args)) = None \<and>
   anti_down (HanNet_init (default_args example_geom 1 1 :: (unit, unit) init_args)) = None \<and>
   (\<exists>w. fst (forward example_externals (HanNet_init (default_args example_geom 1 1))
              [[[0, 0, 0], [1, 0, 0]]] fresh_debug) = Inr w \<and>
        per_sample 1 w \<and>
        sample_of w 0 =
          1 * 1 *
          exp (jastrow_of example_externals (HanNet_init (default_args example_geom 1 1))
                 [[[0, 0, 0], [1, 0, 0]]] ! 0) *
          sample_of (asymp_nuc_of example_externals (HanNet_init (default_args example_geom 1 1))
                 [[[0, 0, 0], [1, 0, 0]]]) 0 *
          sample_of (asymp_same_of example_externals (HanNet_init (default_args example_geom 1 1))
                 [[[0, 0, 0], [1, 0, 0]]]) 0 * 1)"
proof -
  let ?a = "default_args example_geom 1 1 :: (unit, unit) init_args"
  have h: "n_up ?a < 2" "n_down ?a < 2" "cusp_anti ?a = None"
    by (simp_all add: default_args_def)
  let ?m = "HanNet_init ?a"
  let ?rs = "[[[0, 0, 0], [1, 0, 0]]] :: tensor3"
  note t = small_spin_group_has_no_anti_module[OF example_externals_neutral refl,
      of ?a ?rs fresh_debug 1]
  have c1: "anti_up ?m = None"
    using t[THEN conjunct1] h(1) by simp
  have c2: "anti_down ?m = None"
    using t[THEN conjunct2, THEN conjunct1] h(2) by simp
  have "\<exists>w. fst (forward example_externals ?m ?rs fresh_debug) = Inr w \<and> per_sample 1 w \<and>
          (\<forall>b<1. sample_of w b =
             1 * sample_of (anti_down_of example_externals ?m ?rs) b *
             exp (jastrow_of example_externals ?m ?rs ! b) *
             sample_of (asymp_nuc_of example_externals ?m ?rs) b *
             sample_of (asymp_same_of example_externals ?m ?rs) b * 1)"
    using t[THEN conjunct2, THEN conjunct2, THEN conjunct1] h(1,3) example_one_per_sample
    by blast
  then obtain w where w: "fst (forward example_externals ?m ?rs fresh_debug) = Inr w"
    "per_sample 1 w"
    "sample_of w 0 =
             1 * sample_of (anti_down_of example_externals ?m ?rs) 0 *
             exp (jastrow_of example_externals ?m ?rs ! 0) *
             sample_of (asymp_nuc_of example_externals ?m ?rs) 0 *
             sample_of (asymp_same_of example_externals ?m ?rs) 0 * 1"
    by auto
  have d: "sample_of (anti_down_of example_externals ?m ?rs) 0 = 1"
    using init_small_down[OF h(2), of example_externals ?rs] by (simp add: sample_of_float)
  have c3: "\<exists>w. fst (forward example_externals ?m ?rs fresh_debug) = Inr w \<and> per_sample 1 w \<and>
        sample_of w 0 =
          1 * 1 * exp (jastrow_of example_externals ?m ?rs ! 0) *
          sample_of (asymp_nuc_of example_externals ?m ?rs) 0 *
          sample_of (asymp_same_of example_externals ?m ?rs) 0 * 1"
    using w d by simp
  from h example_one_per_sample c1 c2 c3 show ?thesis by blast
qed

text \<open>
  Claim C5: with \<open>cusp_same\<close> (respectively \<open>cusp_anti\<close>) left at \<open>None\<close>,
  \<^item> the model has no \<open>ElectronicAsymptotic\<close> module for it;
  \<^item> what \<open>forward\<close> returns or raises is the product with the float \<open>1.0\<close> as that
    factor, and an active diagnostic context ends the call with \<open>1.0\<close> recorded under
    the factor's name (also when the call raises later on);
  \<^item> with \<open>cusp_anti\<close> at \<open>None\<close> and every factor holding one entry per sample,
    \<open>forward\<close> returns an amplitude, whose value for each sample has \<open>1\<close> in the place
    of each unconfigured factor;
  \<^item> construction succeeds with both left at \<open>None\<close> even if the
    \<open>ElectronicAsymptotic\<close> constructor raises on every call (every other call
    returning), and whenever construction succeeds with a cusp configured it succeeds
    with that cusp left at \<open>None\<close>.
\<close>

theorem missing_cusp_gives_factor_one:
  assumes "debug_neutral X" and "keeps_scope X" and "self = HanNet_init a"
  shows
   "(cusp_same a = None \<longrightarrow>
       asymp_same self = None \<and>
       fst (forward X self rs dbg) =
         product_outcome (anti_up_of X self rs) (anti_down_of X self rs) (jastrow_of X self rs)
           (asymp_nuc_of X self rs) (PyFloat 1) (asymp_anti_of X self rs) \<and>
       (tracing dbg \<longrightarrow>
          entries (snd (snd (forward X self rs dbg))) (levels dbg @ [''asymp_same'']) =
            Some (PyFloat 1))) \<and>
    (cusp_anti a = None \<longrightarrow>
       asymp_anti self = None \<and>
       fst (forward X self rs dbg) =
         product_outcome (anti_up_of X self rs) (anti_down_of X self rs) (jastrow_of X self rs)
           (asymp_nuc_of X self rs) (asymp_same_of X self rs) (Inr (PyFloat 1)) \<and>
       (tracing dbg \<longrightarrow>
          entries (snd (snd (forward X self rs dbg))) (levels dbg @ [''asymp_anti'']) =
            Some (PyFloat 1))) \<and>
    (cusp_anti a = None \<and> one_per_sample X self rs B \<longrightarrow>
       (\<exists>w. fst (forward X self rs dbg) = Inr w \<and> per_sample B w \<and>
          (\<forall>b<B. sample_of w b =
             sample_of (anti_up_of X self rs) b * sample_of (anti_down_of X self rs) b *
             exp (jastrow_of X self rs ! b) * sample_of (asymp_nuc_of X self rs) b *
             sample_of (asymp_same_of X self rs) b * 1))) \<and>
    (cusp_same a = None \<and> cusp_anti a = None \<and> one_per_sample X self rs B \<longrightarrow>
       (\<exists>w. fst (forward X self rs dbg) = Inr w \<and> per_sample B w \<and>
          (\<forall>b<B. sample_of w b =
             sample_of (anti_up_of X self rs) b * sample_of (anti_down_of X self rs) b *
             exp (jastrow_of X self rs ! b) * sample_of (asymp_nuc_of X self rs) b *
             1 * 1))) \<and>
    (cusp_same a = None \<and> cusp_anti a = None \<and>
     (\<forall>c. (\<forall>m. c \<noteq> New_ElectronicAsymptotic m) \<longrightarrow> raises c = None) \<longrightarrow>
       HanNet_new raises a = Inr self) \<and>
    (HanNet_new raises (a\<lparr>cusp_same := Some v\<rparr>) = Inr built \<longrightarrow>
       HanNet_new raises (a\<lparr>cusp_same := None\<rparr>) = Inr (HanNet_init (a\<lparr>cusp_same := None\<rparr>))) \<and>
    (HanNet_new raises (a\<lparr>cusp_anti := Some v\<rparr>) = Inr built \<longrightarrow>
       HanNet_new raises (a\<lparr>cusp_anti := None\<rparr>) = Inr (HanNet_init (a\<lparr>cusp_anti := None\<rparr>)))"
proof -
  note out = forward_outcome[OF assms(1), of self rs dbg]
  have same: "asymp_same self = None \<and>
       fst (forward X self rs dbg) =
         product_outcome (anti_up_of X self rs) (anti_down_of X self rs) (jastrow_of X self rs)
           (asymp_nuc_of X self rs) (PyFloat 1) (asymp_anti_of X self rs) \<and>
       (tracing dbg \<longrightarrow>
          entries (snd (snd (forward X self rs dbg))) (levels dbg @ [''asymp_same'']) =
            Some (PyFloat 1))"
    if h: "cusp_same a = None"
  proof -
    have n: "asymp_same self = None" "asymp_same_of X self rs = PyFloat 1"
      using init_no_cusp_same[OF h, of X rs] assms(3) by simp_all
    show ?thesis
      using n out forward_records_asymp_same[OF assms(2) n(1), of dbg rs] by simp
  qed
  have anti: "asymp_anti self = None \<and>
       fst (forward X self rs dbg) =
         product_outcome (anti_up_of X self rs) (anti_down_of X self rs) (jastrow_of X self rs)
           (asymp_nuc_of X self rs) (asymp_same_of X self rs) (Inr (PyFloat 1)) \<and>
       (tracing dbg \<longrightarrow>
          entries (snd (snd (forward X self rs dbg))) (levels dbg @ [''asymp_anti'']) =
            Some (PyFloat 1))"
    if h: "cusp_anti a = None"
  proof -
    have n: "asymp_anti self = None" "asymp_anti_of X self rs = Inr (PyFloat 1)"
      using init_no_cusp_anti[OF h, of X rs] assms(3) by simp_all
    show ?thesis
      using n out forward_records_asymp_anti[OF assms(2) n(1), of dbg rs] by simp
  qed
  have ret: "\<exists>w. fst (forward X self rs dbg) = Inr w \<and> per_sample B w \<and>
          (\<forall>b<B. sample_of w b =
             sample_of (anti_up_of X self rs) b * sample_of (anti_down_of X self rs) b *
             exp (jastrow_of X self rs ! b) * sample_of (asymp_nuc_of X self rs) b *
             sample_of (asymp_same_of X self rs) b * 1)"
    if h: "cusp_anti a = None" "one_per_sample X self rs B"
  proof -
    note s = one_per_sampleD[OF h(2)]
    show ?thesis
      using product_outcome_per_sample[OF s(1) s(2) s(3) s(4) s(5) per_sample_float[of B 1]]
        anti[OF h(1)]
      by (simp add: sample_of_float)
  qed
  have ret2: "\<exists>w. fst (forward X self rs dbg) = Inr w \<and> per_sample B w \<and>
          (\<forall>b<B. sample_of w b =
             sample_of (anti_up_of X self rs) b * sample_of (anti_down_of X self rs) b *
             exp (jastrow_of X self rs ! b) * sample_of (asymp_nuc_of X self rs) b *
             1 * 1)"
    if h: "cusp_same a = None" "cusp_anti a = None" "one_per_sample X self rs B"
  proof -
    have n: "asymp_same_of X self rs = PyFloat 1"
      using init_no_cusp_same[OF h(1), of X rs] assms(3) by simp
    show ?thesis
      using ret[OF h(2,3)] n by (simp add: sample_of_float)
  qed
  have built: "HanNet_new raises a = Inr self"
    if h: "cusp_same a = None" "cusp_anti a = None"
      "\<forall>c. (\<forall>m. c \<noteq> New_ElectronicAsymptotic m) \<longrightarrow> raises c = None"
  proof -
    have "raises c = None" if "c \<in> set (init_calls a)" for c
      using that h(3) init_calls_no_cusp[OF h(1,2)] by metis
    then show ?thesis
      using assms(3) by (simp add: HanNet_new_Inr)
  qed
  have rel_same: "HanNet_new raises (a\<lparr>cusp_same := None\<rparr>) =
      Inr (HanNet_init (a\<lparr>cusp_same := None\<rparr>))"
    if "HanNet_new raises (a\<lparr>cusp_same := Some v\<rparr>) = Inr built"
    using that init_calls_without_cusp_same[of a "Some v"]
    by (auto simp: HanNet_new_Inr)
  have rel_anti: "HanNet_new raises (a\<lparr>cusp_anti := None\<rparr>) =
      Inr (HanNet_init (a\<lparr>cusp_anti := None\<rparr>))"
    if "HanNet_new raises (a\<lparr>cusp_anti := Some v\<rparr>) = Inr built"
    using that init_calls_without_cusp_anti[of a "Some v"]
    by (auto simp: HanNet_new_Inr)
  from same anti ret ret2 built rel_same rel_anti show ?thesis by blast
qed

text \<open>
  The default arguments leave both cusp coefficients unconfigured: the model, a call of
  \<open>forward\<close> with an active context, and construction with a constructor of
  \<open>ElectronicAsymptotic\<close> that always raises.
\<close>

theorem missing_cusp_witness:
  "cusp_same (default_args example_geom 1 1 :: (unit, unit) init_args) = None \<and>
   cusp_anti (default_args example_geom 1 1 :: (unit, unit) init_args) = None \<and>
   asymp_same (HanNet_init (default_args example_geom 1 1 :: (unit, unit) init_args)) = None \<and>
   asymp_anti (HanNet_init (default_args example_geom 1 1 :: (unit, unit) init_args)) = None \<and>
   entries (snd (snd (forward example_externals (HanNet_init (default_args example_geom 1 1))
     [[[0, 0, 0], [1, 0, 0]]] fresh_debug))) [''asymp_same''] = Some (PyFloat 1) \<and>
   entries (snd (snd (forward example_externals (HanNet_init (default_args example_geom 1 1))
     [[[0, 0, 0], [1, 0, 0]]] fresh_debug))) [''asymp_anti''] = Some (PyFloat 1) \<and>
   (\<exists>w. fst (forward example_externals (HanNet_init (default_args example_geom 1 1))
              [[[0, 0, 0], [1, 0, 0]]] fresh_debug) = Inr w \<and>
        per_sample 1 w \<and>
        sample_of w 0 =
          sample_of (anti_up_of example_externals (HanNet_init (default_args example_geom 1 1))
                 [[[0, 0, 0], [1, 0, 0]]]) 0 *
          sample_of (anti_down_of example_externals (HanNet_init (default_args example_geom 1 1))
                 [[[0, 0, 0], [1, 0, 0]]]) 0 *
          exp (jastrow_of example_externals (HanNet_init (default_args example_geom 1 1))
                 [[[0, 0, 0], [1, 0, 0]]] ! 0) *
          sample_of (asymp_nuc_of example_externals (HanNet_init (default_args example_geom 1 1))
                 [[[0, 0, 0], [1, 0, 0]]]) 0 * 1 * 1) \<and>
   HanNet_new no_cusp_module (default_args example_geom 1 1) =
     Inr (HanNet_init (default_args example_geom 1 1)) \<and>
   HanNet_new (\<lambda>c. None)
       ((default_args example_geom 1 1 :: (unit, unit) init_args)\<lparr>cusp_same := Some 1\<rparr>) =
     Inr (HanNet_init ((default_args example_geom 1 1)\<lparr>cusp_same := Some 1\<rparr>)) \<and>
   HanNet_new (\<lambda>c. None)
       ((default_args example_geom 1 1 :: (unit, unit) init_args)\<lparr>cusp_same := None\<rparr>) =
     Inr (HanNet_init ((default_args example_geom 1 1)\<lparr>cusp_same := None\<rparr>))"
proof -
  let ?a = "default_args example_geom 1 1 :: (unit, unit) init_args"
  let ?m = "HanNet_init ?a"
  let ?rs = "[[[0, 0, 0], [1, 0, 0]]] :: tensor3"
  have h: "cusp_same ?a = None" "cusp_anti ?a = None" "tracing fresh_debug"
    "levels fresh_debug = []"
    by (simp_all add: default_args_def fresh_debug_def)
  have k: "\<forall>c. (\<forall>m. c \<noteq> New_ElectronicAsymptotic m) \<longrightarrow> no_cusp_module c = None"
    by (auto simp: no_cusp_module_def split: init_call.splits)
  have b: "HanNet_new (\<lambda>c. None) (?a\<lparr>cusp_same := Some 1\<rparr>) =
      Inr (HanNet_init (?a\<lparr>cusp_same := Some 1\<rparr>))"
    by (simp add: HanNet_new_Inr)
  note t = missing_cusp_gives_factor_one[OF example_externals_neutral
      example_externals_keeps_scope refl, of ?a ?rs fresh_debug 1 no_cusp_module]
  note t' = missing_cusp_gives_factor_one[OF example_externals_neutral
      example_externals_keeps_scope refl, of ?a ?rs fresh_debug 1 "\<lambda>c. None" 1
      "HanNet_init (?a\<lparr>cusp_same := Some 1\<rparr>)"]
  have c1: "asymp_same ?m = None"
    "entries (snd (snd (forward example_externals ?m ?rs fresh_debug))) [''asymp_same''] =
       Some (PyFloat 1)"
    using t[THEN conjunct1] h by simp_all
  have c2: "asymp_anti ?m = None"
    "entries (snd (snd (forward example_externals ?m ?rs fresh_debug))) [''asymp_anti''] =
       Some (PyFloat 1)"
    using t[THEN conjunct2, THEN conjunct1] h by simp_all
  have "\<exists>w. fst (forward example_externals ?m ?rs fresh_debug) = Inr w \<and> per_sample 1 w \<and>
          (\<forall>b<1. sample_of w b =
             sample_of (anti_up_of example_externals ?m ?rs) b *
             sample_of (anti_down_of example_externals ?m ?rs) b *
             exp (jastrow_of example_externals ?m ?rs ! b) *
             sample_of (asymp_nuc_of example_externals ?m ?rs) b * 1 * 1)"
    using t[THEN conjunct2, THEN conjunct2, THEN conjunct2, THEN conjunct1] h(1,2)
      example_one_per_sample
    by blast
  then have c3: "\<exists>w. fst (forward example_externals ?m ?rs fresh_debug) = Inr w \<and>
        per_sample 1 w \<and>
        sample_of w 0 =
             sample_of (anti_up_of example_externals ?m ?rs) 0 *
             sample_of (anti_down_of example_externals ?m ?rs) 0 *
             exp (jastrow_of example_externals ?m ?rs ! 0) *
             sample_of (asymp_nuc_of example_externals ?m ?rs) 0 * 1 * 1"
    by auto
  have c4: "HanNet_new no_cusp_module ?a = Inr ?m"
    using t[THEN conjunct2, THEN conjunct2, THEN conjunct2, THEN conjunct2, THEN conjunct1]
      h(1,2) k
    by blast
  have c5: "HanNet_new (\<lambda>c. None) (?a\<lparr>cusp_same := None\<rparr>) =
      Inr (HanNet_init (?a\<lparr>cusp_same := None\<rparr>))"
    using t'[THEN conjunct2, THEN conjunct2, THEN conjunct2, THEN conjunct2, THEN conjunct2,
        THEN conjunct1] b
    by blast
  from h(1,2) c1 c2 c3 c4 b c5 show ?thesis by blast
qed

text \<open>
  Claim C6 (with \<open>cusp_anti\<close> configured, \<open>forward\<close> applies the opposite-spin module to
  the flattened up-versus-down distance block and completes without raising): for every
  model built with \<open>cusp_anti\<close> configured, every batch and every diagnostic context,
  \<open>forward\<close> raises \<open>AttributeError\<close> on the misspelt method \<open>flattten\<close>; the module
  is never called.
\<close>

theorem flattten_raises:
  "fst (forward X (HanNet_init (a\<lparr>cusp_anti := Some c\<rparr>)) rs dbg) =
     Inl (AttributeError ''flattten'')"
  by (rule forward_raises[OF init_cusp_anti])

text \<open>
  Claim C7: whatever diagnostic context is passed, \<open>forward\<close> returns (or raises) what
  it does with \<open>NULL_DEBUG\<close>, provided the sub-modules that receive the context honour
  the hook's contract.
\<close>

theorem debug_does_not_alter_amplitude:
  assumes "debug_neutral X"
  shows "fst (forward X self rs dbg) = fst (forward X self rs NULL_DEBUG)"
  using assms by (rule forward_neutral)

text \<open>
  An active context against \<open>NULL_DEBUG\<close>, on the instance of the sub-modules: the
  result is the same, and the active context has recorded.
\<close>

theorem debug_witness:
  "fst (forward example_externals (HanNet_init (default_args example_geom 2 1)) example_rs
          fresh_debug) =
   fst (forward example_externals (HanNet_init (default_args example_geom 2 1)) example_rs
          NULL_DEBUG) \<and>
   entries (snd (snd (forward example_externals (HanNet_init (default_args example_geom 2 1))
     example_rs fresh_debug))) [''asymp_anti''] = Some (PyFloat 1)"
proof -
  note recorded = example_records_asymp_anti
  show ?thesis
    using debug_does_not_alter_amplitude[OF example_externals_neutral,
      of "HanNet_init (default_args example_geom 2 1)" example_rs fresh_debug] recorded
    by simp
qed


text \<open>
  Claim C9: a call of \<open>forward\<close> returns the model as it was passed, every field of
  it, and a second call on the same batch gives the result of the first, provided the
  sub-modules are stateless and honour the hook's contract. \<open>forward\<close> itself assigns
  to no field; a sub-module that changes itself when called would show in the model
  returned.
\<close>

theorem forward_leaves_model_unchanged:
  assumes "stateless X" and "debug_neutral X"
  shows "model (snd (forward_call X st rs)) = model st \<and>
         fst (forward_call X (snd (forward_call X st rs)) rs) = fst (forward_call X st rs)"
  using forward_self[OF assms(1)] forward_neutral[OF assms(2)]
  by (simp add: forward_call_def Let_def)

text \<open>
  Two calls in a row with an active diagnostic context: the model is the one
  constructed, the second result is the first, and the first call has written to the
  context the second one starts from. With the nuclear asymptotic module that halves its
  ionization potential the model comes back changed: the hypothesis is needed.
\<close>

theorem forward_frame_witness:
  "model (snd (forward_call example_externals
      \<lparr>model = HanNet_init (default_args example_geom 2 1), context_obj = fresh_debug\<rparr>
      example_rs)) = HanNet_init (default_args example_geom 2 1) \<and>
   fst (forward_call example_externals (snd (forward_call example_externals
      \<lparr>model = HanNet_init (default_args example_geom 2 1), context_obj = fresh_debug\<rparr>
      example_rs)) example_rs) =
   fst (forward_call example_externals
      \<lparr>model = HanNet_init (default_args example_geom 2 1), context_obj = fresh_debug\<rparr>
      example_rs) \<and>
   entries (context_obj (snd (forward_call example_externals
      \<lparr>model = HanNet_init (default_args example_geom 2 1), context_obj = fresh_debug\<rparr>
      example_rs))) [''asymp_anti''] = Some (PyFloat 1) \<and>
   entries fresh_debug [''asymp_anti''] = None \<and>
   model (snd (forward_call drifting_externals
      \<lparr>model = HanNet_init (default_args example_geom 2 1), context_obj = fresh_debug\<rparr>
      example_rs)) \<noteq> HanNet_init (default_args example_geom 2 1)"
proof -
  let ?st = "\<lparr>model = HanNet_init (default_args example_geom 2 1),
               context_obj = fresh_debug\<rparr> :: (unit, unit) objects"
  note t = forward_leaves_model_unchanged[OF example_externals_stateless
      example_externals_neutral, of ?st example_rs]
  have kept: "model (snd (forward_call example_externals ?st example_rs)) =
      HanNet_init (default_args example_geom 2 1)"
    using t by simp
  have again: "fst (forward_call example_externals
      (snd (forward_call example_externals ?st example_rs)) example_rs) =
      fst (forward_call example_externals ?st example_rs)"
    using t by simp
  have recorded: "entries (context_obj (snd (forward_call example_externals ?st example_rs)))
      [''asymp_anti''] = Some (PyFloat 1)"
    using example_records_asymp_anti by (simp add: forward_call_def Let_def)
  have fresh: "entries fresh_debug [''asymp_anti''] = None"
    by (simp add: fresh_debug_def)
  from kept again recorded fresh drifting_model_changes show ?thesis
    by blast
qed

text \<open>
  Claim C10 says that any user-supplied \<open>pair_factory\<close> is invoked as
  \<open>pair_factory(7, latent_dim)\<close>. A supplied factory object that is falsy is not: line 45
  replaces it by the default factory, so the pairwise network is the default one, the
  network the supplied factory returns for \<open>(7, 10)\<close> is not in the module, and the
  supplied factory is not among the calls of \<open>__init__\<close>.
\<close>

theorem falsy_pair_factory_not_invoked:
  "pair_factory ((default_args example_geom 2 0 :: (unit, unit) init_args)
      \<lparr>pair_factory := Some falsy_factory\<rparr>) = Some falsy_factory \<and>
   anti_up (HanNet_init ((default_args example_geom 2 0 :: (unit, unit) init_args)
      \<lparr>pair_factory := Some falsy_factory\<rparr>)) =
     Some (LaughlinAnsatz (Concat (LogDNN 7 10 SSP 2 (Some False)))
       (Sequential [LogDNN 10 1 SSP 2 (Some False), Sigmoid])) \<and>
   anti_up (HanNet_init ((default_args example_geom 2 0 :: (unit, unit) init_args)
      \<lparr>pair_factory := Some falsy_factory\<rparr>)) \<noteq>
     Some (LaughlinAnsatz (Concat (call falsy_factory 7 10))
       (Sequential [LogDNN 10 1 SSP 2 (Some False), Sigmoid])) \<and>
   Factory_call (call falsy_factory 7 10) \<notin>
     set (init_calls ((default_args example_geom 2 0 :: (unit, unit) init_args)
      \<lparr>pair_factory := Some falsy_factory\<rparr>))"
  by (simp add: HanNet_init_def init_calls_def anti_calls_def cusp_calls_def default_args_def
      make_anti_def or_default_def falsy_factory_def default_pair_factory_def
      default_odd_factory_def default_orbital_factory_def Let_def)

text \<open>
  Claim C10, amended: for a spin group of at least two particles, the pairwise network
  of its antisymmetrization module is \<open>pair_factory(7, latent_dim)\<close> when a
  \<open>pair_factory\<close> is supplied and truthy, and the default factory's network
  \<open>get_log_dnn(7, latent_dim, SSP, n_layers=2, last_bias=False)\<close> when \<open>pair_factory\<close> is
  \<open>None\<close> or falsy. The input dimension passed is 7 in every case.
\<close>

theorem pair_network_input_dimension:
  "(n_up a > 1 \<and> pair_factory a = Some f \<and> truthy f \<longrightarrow>
      anti_up (HanNet_init a) =
        Some (LaughlinAnsatz (Concat (call f 7 (latent_dim a)))
          (Sequential [or_default (odd_factory a) default_odd_factory (latent_dim a), Sigmoid]))) \<and>
   (n_up a > 1 \<and> (pair_factory a = None \<or> pair_factory a = Some f \<and> \<not> truthy f) \<longrightarrow>
      anti_up (HanNet_init a) =
        Some (LaughlinAnsatz (Concat (LogDNN 7 (latent_dim a) SSP 2 (Some False)))
          (Sequential [or_default (odd_factory a) default_odd_factory (latent_dim a), Sigmoid]))) \<and>
   (n_down a > 1 \<and> pair_factory a = Some f \<and> truthy f \<longrightarrow>
      anti_down (HanNet_init a) =
        Some (LaughlinAnsatz (Concat (call f 7 (latent_dim a)))
          (Sequential [or_default (odd_factory a) default_odd_factory (latent_dim a), Sigmoid]))) \<and>
   (n_down a > 1 \<and> (pair_factory a = None \<or> pair_factory a = Some f \<and> \<not> truthy f) \<longrightarrow>
      anti_down (HanNet_init a) =
        Some (LaughlinAnsatz (Concat (LogDNN 7 (latent_dim a) SSP 2 (Some False)))
          (Sequential [or_default (odd_factory a) default_odd_factory (latent_dim a), Sigmoid])))"
  by (auto simp: HanNet_init_def make_anti_def default_pair_factory_def or_default_def Let_def)

text \<open>The default factory with both groups large enough, a truthy and a falsy supplied one.\<close>

theorem pair_network_witness:
  "n_up (default_args example_geom 2 3 :: (unit, unit) init_args) > 1 \<and>
   n_down (default_args example_geom 2 3 :: (unit, unit) init_args) > 1 \<and>
   pair_factory (default_args example_geom 2 3 :: (unit, unit) init_args) = None \<and>
   anti_up (HanNet_init (default_args example_geom 2 3 :: (unit, unit) init_args)) =
     Some (LaughlinAnsatz (Concat (LogDNN 7 10 SSP 2 (Some False)))
       (Sequential [LogDNN 10 1 SSP 2 (Some False), Sigmoid])) \<and>
   anti_down (HanNet_init (default_args example_geom 2 3 :: (unit, unit) init_args)) =
     Some (LaughlinAnsatz (Concat (LogDNN 7 10 SSP 2 (Some False)))
       (Sequential [LogDNN 10 1 SSP 2 (Some False), Sigmoid])) \<and>
   truthy truthy_factory \<and>
   anti_up (HanNet_init ((default_args example_geom 2 0 :: (unit, unit) init_args)
       \<lparr>pair_factory := Some truthy_factory\<rparr>)) =
     Some (LaughlinAnsatz (Concat (Sequential [LogDNN 7 10 SSP 4 None]))
       (Sequential [LogDNN 10 1 SSP 2 (Some False), Sigmoid])) \<and>
   \<not> truthy falsy_factory \<and>
   anti_up (HanNet_init ((default_args example_geom 2 0 :: (unit, unit) init_args)
       \<lparr>pair_factory := Some falsy_factory\<rparr>)) =
     Some (LaughlinAnsatz (Concat (LogDNN 7 10 SSP 2 (Some False)))
       (Sequential [LogDNN 10 1 SSP 2 (Some False), Sigmoid]))"
  using pair_network_input_dimension
      [of "default_args example_geom 2 3 :: (unit, unit) init_args" falsy_factory]
    pair_network_input_dimension
      [of "(default_args example_geom 2 0 :: (unit, unit) init_args)
       \<lparr>pair_factory := Some truthy_factory\<rparr>" truthy_factory]
    pair_network_input_dimension
      [of "(default_args example_geom 2 0 :: (unit, unit) init_args)
       \<lparr>pair_factory := Some falsy_factory\<rparr>" falsy_factory]
  by (simp add: default_args_def default_odd_factory_def or_default_def truthy_factory_def
      falsy_factory_def)

end
